theory Spec2Isabelle
  imports Complex_Main
begin

section \<open>Conventions of the embedding\<close>

text \<open>
  The module \<^verbatim>\<open>picca/xcf.py\<close> works on numpy arrays of 64-bit floats. The embedding
  idealises floats as real numbers: separations, weights and sums are computed without
  rounding and there are no \<^verbatim>\<open>inf\<close> or \<^verbatim>\<open>nan\<close> values. The one place where rounding
  is modelled is the computation of a bin index, whose integer result decides in which
  entry of an array a pair is counted: there every float operation rounds to the nearest
  64-bit float (\<open>round_double\<close> below). Where the Python would produce a non-finite number,
  or raise, the model returns an error value, so every theorem of the form "the run returns
  a result, hence ..." speaks about runs that stay inside the real numbers.

  The module keeps its run configuration in module-level globals; they are collected in the
  record \<open>config\<close>. Progress reporting (the shared counter, its lock and \<^verbatim>\<open>userprint\<close>) does
  not influence any result and is left out.

  What \<^verbatim>\<open>xcf.py\<close> imports from outside the repository's sources is a field of \<open>config\<close>
  too: the table \<^verbatim>\<open>constants.ABSORBER_IGM\<close> of rest wavelengths (\<open>absorber_igm\<close>), the
  distance functions of \<^verbatim>\<open>cosmo\<close>, the interpolators stored in the dictionaries \<^verbatim>\<open>v1d\<close> and
  \<^verbatim>\<open>c1d\<close>, and healpy's \<^verbatim>\<open>query_disc\<close>.
\<close>

datatype error =
    ValueError          \<comment> \<open>negative bin passed to \<^verbatim>\<open>np.bincount\<close>, shapes that do not broadcast\<close>
  | IndexError          \<comment> \<open>index outside an array, boolean mask of the wrong length\<close>
  | KeyError            \<comment> \<open>healpix missing from a dictionary\<close>
  | AttributeError      \<comment> \<open>attribute access on \<^verbatim>\<open>None\<close>\<close>
  | TypeError           \<comment> \<open>\<^verbatim>\<open>len(None)\<close>, indexing \<^verbatim>\<open>None\<close>\<close>
  | ZeroDivisionError   \<comment> \<open>\<^verbatim>\<open>np.average\<close> with weights that sum to zero\<close>
  | UnboundLocalError   \<comment> \<open>local variable read before assignment\<close>
  | NameError           \<comment> \<open>global name that is defined nowhere\<close>
  | NonFinite           \<comment> \<open>a float operation whose result is \<^verbatim>\<open>inf\<close> or \<^verbatim>\<open>nan\<close>\<close>

record config =
  num_bins_r_par :: nat
  num_bins_r_trans :: nat
  num_model_bins_r_par :: nat
  num_model_bins_r_trans :: nat
  r_par_max :: real
  r_par_min :: real
  r_trans_max :: real
  z_cut_max :: real
  z_cut_min :: real
  ang_max :: real
  z_ref :: real
  z_evol_del :: real
  z_evol_obj :: real
  reject :: real
  ang_correlation :: bool
  absorber_igm :: "string \<rightharpoonup> real"
  alpha_abs :: "string \<rightharpoonup> real"
  get_r_comov :: "real \<Rightarrow> real"
  get_dist_m :: "real \<Rightarrow> real"
  v1d :: "string \<rightharpoonup> (real \<Rightarrow> real)"
  c1d :: "string \<rightharpoonup> (real \<Rightarrow> real)"
  max_diagram :: int
  cfWick :: "real list option"
  cfWick_np :: nat
  cfWick_nt :: nat
  cfWick_rp_min :: real
  cfWick_rp_max :: real
  cfWick_rt_max :: real
  nside :: nat
  query_disc :: "nat \<Rightarrow> real \<times> real \<times> real \<Rightarrow> real \<Rightarrow> nat list"

section \<open>Array primitives\<close>

text \<open>\<^verbatim>\<open>x.astype(int)\<close> on a float: truncation towards zero.\<close>

definition astype_int :: "real \<Rightarrow> int" where
  "astype_int x = (if 0 \<le> x then \<lfloor>x\<rfloor> else \<lceil>x\<rceil>)"

text \<open>
  A two-dimensional array of shape \<open>(n1, n2)\<close> obtained by broadcasting is a function of the
  row and column index. \<open>pairs n1 n2\<close> lists the index pairs in row-major order, the order in
  which boolean-mask indexing \<^verbatim>\<open>a[w]\<close> flattens; \<open>nonzero2\<close> keeps the pairs where the mask
  holds and \<open>masked\<close> reads an array at them.
\<close>

definition pairs :: "nat \<Rightarrow> nat \<Rightarrow> (nat \<times> nat) list" where
  "pairs n1 n2 = concat (map (\<lambda>i. map (\<lambda>j. (i, j)) [0..<n2]) [0..<n1])"

definition nonzero2 :: "nat \<Rightarrow> nat \<Rightarrow> (nat \<Rightarrow> nat \<Rightarrow> bool) \<Rightarrow> (nat \<times> nat) list" where
  "nonzero2 n1 n2 w = filter (\<lambda>(i, j). w i j) (pairs n1 n2)"

definition masked :: "(nat \<times> nat) list \<Rightarrow> (nat \<Rightarrow> nat \<Rightarrow> 'a) \<Rightarrow> 'a list" where
  "masked sel a = map (\<lambda>(i, j). a i j) sel"

text \<open>
  \<^verbatim>\<open>np.bincount(bins, weights=ws)\<close>: raises on a negative bin; otherwise the result has
  \<open>max bins + 1\<close> entries (none for an empty input) and entry \<open>k\<close> is the sum of the weights
  whose bin is \<open>k\<close>.
\<close>

definition bincount_len :: "int list \<Rightarrow> nat" where
  "bincount_len bins = (if bins = [] then 0 else nat (fold max bins 0) + 1)"

definition bin_sum :: "int list \<Rightarrow> real list \<Rightarrow> nat \<Rightarrow> real" where
  "bin_sum bins ws k = sum_list (map snd (filter (\<lambda>(b, w). b = int k) (zip bins ws)))"

definition bincount :: "int list \<Rightarrow> real list \<Rightarrow> error + real list" where
  "bincount bins ws =
     (if length bins \<noteq> length ws \<or> (\<exists>b \<in> set bins. b < 0) then Inl ValueError
      else Inr (map (bin_sum bins ws) [0..<bincount_len bins]))"

text \<open>
  \<^verbatim>\<open>acc[:len(rebin)] += rebin\<close>: the slice has \<open>min (len acc) (len rebin)\<close> entries. When
  \<open>rebin\<close> is longer than \<open>acc\<close> the shapes do not broadcast and numpy raises, except that
  a one-element \<open>rebin\<close> broadcasts over the empty slice of an empty \<open>acc\<close>.
\<close>

definition add_prefix :: "'a::plus list \<Rightarrow> 'a list \<Rightarrow> error + 'a list" where
  "add_prefix acc rebin =
     (if length rebin \<le> length acc
      then Inr (map2 (+) (take (length rebin) acc) rebin @ drop (length rebin) acc)
      else if acc = [] \<and> length rebin = 1 then Inr acc
      else Inl ValueError)"

section \<open>The selection window and the bin indices\<close>

text \<open>
  The mask \<^verbatim>\<open>w = (r_par > r_par_min) & (r_par < r_par_max) & (r_trans < r_trans_max)\<close> is
  written out identically in \<^verbatim>\<open>compute_xi_forest_pairs\<close>, \<^verbatim>\<open>compute_dmat_forest_pairs\<close>,
  \<^verbatim>\<open>compute_metal_dmat\<close>, \<^verbatim>\<open>fill_wickT1234\<close> and \<^verbatim>\<open>fill_wickT56\<close>.
\<close>

definition window :: "config \<Rightarrow> real \<Rightarrow> real \<Rightarrow> bool" where
  "window cfg rp rt \<longleftrightarrow> rp > r_par_min cfg \<and> rp < r_par_max cfg \<and> rt < r_trans_max cfg"

text \<open>
  Float arithmetic in a bin index. An operation on 64-bit floats returns the float nearest
  to the exact result, a tie going to the float whose 53-bit significand is even.
  \<open>round_even\<close> is that rounding to an integer; \<open>round_double x\<close> scales \<open>x\<close> by the power
  of two that brings its significand to 53 bits, rounds, and scales back. The exponent is
  not bounded: overflow to \<^verbatim>\<open>inf\<close> and the coarser spacing of subnormal numbers are not
  modelled. The separations and the limits of the window are taken to be floats already.
\<close>

definition round_even :: "real \<Rightarrow> int" where
  "round_even x =
     (let f = \<lfloor>x\<rfloor>
      in if x - of_int f < 1/2 then f
         else if 1/2 < x - of_int f then f + 1
         else if even f then f else f + 1)"

definition round_double :: "real \<Rightarrow> real" where
  "round_double x =
     (if x = 0 then 0
      else let e = \<lfloor>log 2 \<bar>x\<bar>\<rfloor>
           in of_int (round_even (x / 2 powr of_int (e - 52))) * 2 powr of_int (e - 52))"

text \<open>
  \<^verbatim>\<open>((r_par - r_par_min)/(r_par_max - r_par_min)*n).astype(int)\<close> and
  \<^verbatim>\<open>(r_trans/r_trans_max*n).astype(int)\<close>, for the data grid and for the model grid: two
  subtractions, a division and a multiplication by the bin count (an integer, converted
  exactly), each rounded, then the cast. Nothing clamps the result.
\<close>

definition bin_par :: "config \<Rightarrow> nat \<Rightarrow> real \<Rightarrow> int" where
  "bin_par cfg n rp =
     astype_int (round_double (round_double (round_double (rp - r_par_min cfg)
                                              / round_double (r_par_max cfg - r_par_min cfg))
                               * real n))"

definition bin_trans :: "config \<Rightarrow> nat \<Rightarrow> real \<Rightarrow> int" where
  "bin_trans cfg n rt = astype_int (round_double (round_double (rt / r_trans_max cfg) * real n))"

section \<open>The pair-binning kernel \<^verbatim>\<open>compute_xi_forest_pairs\<close>\<close>

text \<open>
  The two geometry branches: comoving separations, or (angular mode) the ratio of the two
  first coordinates and the raw angle.
\<close>

definition xi_r_par ::
  "config \<Rightarrow> real list \<Rightarrow> real list \<Rightarrow> real list \<Rightarrow> nat \<Rightarrow> nat \<Rightarrow> real" where
  "xi_r_par cfg r_comov1 r_comov2 ang i j =
     (if ang_correlation cfg then r_comov1 ! i / r_comov2 ! j
      else (r_comov1 ! i - r_comov2 ! j) * cos (ang ! j / 2))"

definition xi_r_trans ::
  "config \<Rightarrow> real list \<Rightarrow> real list \<Rightarrow> real list \<Rightarrow> nat \<Rightarrow> nat \<Rightarrow> real" where
  "xi_r_trans cfg dist_m1 dist_m2 ang i j =
     (if ang_correlation cfg then ang ! j
      else (dist_m1 ! i + dist_m2 ! j) * sin (ang ! j / 2))"

text \<open>
  The index pairs that survive the mask \<open>w\<close> of \<^verbatim>\<open>compute_xi_forest_pairs\<close>. In angular
  mode a quotient by zero is \<^verbatim>\<open>inf\<close> or \<^verbatim>\<open>nan\<close>, which fails every comparison of the
  mask; the first conjunct says so, since a real quotient by zero would be \<open>0\<close>.
\<close>

definition xi_selected ::
  "config \<Rightarrow> real list \<Rightarrow> real list \<Rightarrow> real list \<Rightarrow> real list \<Rightarrow> real list
     \<Rightarrow> (nat \<times> nat) list" where
  "xi_selected cfg r_comov1 dist_m1 r_comov2 dist_m2 ang =
     nonzero2 (length r_comov1) (length r_comov2)
       (\<lambda>i j. (ang_correlation cfg \<longrightarrow> r_comov2 ! j \<noteq> 0)
              \<and> window cfg (xi_r_par cfg r_comov1 r_comov2 ang i j)
                            (xi_r_trans cfg dist_m1 dist_m2 ang i j))"

text \<open>
  The kernel. The arrays of forest 1 have one entry per pixel and those of the objects one
  entry per neighbour; arrays of other lengths do not broadcast (the model does not follow
  numpy's stretching of one-element arrays, which aligned entity arrays never need). After
  the mask, a transverse window of width zero makes every surviving quotient \<^verbatim>\<open>-inf\<close>,
  whose integer cast is negative, and \<^verbatim>\<open>np.bincount\<close> raises.
\<close>

definition compute_xi_forest_pairs ::
  "config \<Rightarrow> real list \<Rightarrow> real list \<Rightarrow> real list \<Rightarrow> real list \<Rightarrow> real list
     \<Rightarrow> real list \<Rightarrow> real list \<Rightarrow> real list \<Rightarrow> real list \<Rightarrow> real list
     \<Rightarrow> error + (real list \<times> real list \<times> real list \<times> real list \<times> real list \<times> real list)"
where
  "compute_xi_forest_pairs cfg z1 r_comov1 dist_m1 weights1 delta1
                               z2 r_comov2 dist_m2 weights2 ang =
     (if \<not> (length z1 = length r_comov1 \<and> length dist_m1 = length r_comov1
             \<and> length weights1 = length r_comov1 \<and> length delta1 = length r_comov1
             \<and> length z2 = length r_comov2 \<and> length dist_m2 = length r_comov2
             \<and> length weights2 = length r_comov2 \<and> length ang = length r_comov2)
      then Inl ValueError
      else
        let r_par = xi_r_par cfg r_comov1 r_comov2 ang;
            r_trans = xi_r_trans cfg dist_m1 dist_m2 ang;
            z = (\<lambda>i j. (z1 ! i + z2 ! j) / 2);
            weights12 = (\<lambda>i j. weights1 ! i * weights2 ! j);
            delta_times_weight = (\<lambda>i j. (weights1 ! i * delta1 ! i) * weights2 ! j);
            w = xi_selected cfg r_comov1 dist_m1 r_comov2 dist_m2 ang;
            r_par_w = masked w r_par;
            r_trans_w = masked w r_trans;
            z_w = masked w z;
            weights12_w = masked w weights12;
            delta_times_weight_w = masked w delta_times_weight;
            bins_r_par = map (bin_par cfg (num_bins_r_par cfg)) r_par_w;
            bins_r_trans = map (bin_trans cfg (num_bins_r_trans cfg)) r_trans_w;
            bins = map2 (\<lambda>bt bp. bt + int (num_bins_r_trans cfg) * bp) bins_r_trans bins_r_par
        in if r_trans_max cfg = 0 \<and> w \<noteq> [] then Inl ValueError
           else
             case bincount bins delta_times_weight_w of Inl e \<Rightarrow> Inl e | Inr rebin_xi \<Rightarrow>
             case bincount bins weights12_w of Inl e \<Rightarrow> Inl e | Inr rebin_weight \<Rightarrow>
             case bincount bins (map2 (*) r_par_w weights12_w) of Inl e \<Rightarrow> Inl e
               | Inr rebin_r_par \<Rightarrow>
             case bincount bins (map2 (*) r_trans_w weights12_w) of Inl e \<Rightarrow> Inl e
               | Inr rebin_r_trans \<Rightarrow>
             case bincount bins (map2 (*) z_w weights12_w) of Inl e \<Rightarrow> Inl e
               | Inr rebin_z \<Rightarrow>
             case bincount bins (map (\<lambda>x. if x > 0 then 1 else 0) weights12_w) of
                 Inl e \<Rightarrow> Inl e
               | Inr rebin_num_pairs \<Rightarrow>
             Inr (rebin_weight, rebin_xi, rebin_r_par, rebin_r_trans, rebin_z,
                  rebin_num_pairs))"

section \<open>Entities\<close>

text \<open>
  \<^verbatim>\<open>picca/data.py\<close> defines the base class \<^verbatim>\<open>qso\<close> (identity, unit vector of the position,
  redshift) and the class \<^verbatim>\<open>delta(qso)\<close>. \<^verbatim>\<open>xcf.py\<close> reads the attributes below under the
  names used here. An object of the catalogue carries scalars; a forest carries one array
  per quantity, aligned by pixel, its fit \<open>order\<close>, the file it came from and the transient
  \<open>neighbours\<close> list, which is \<^verbatim>\<open>None\<close> until \<^verbatim>\<open>fill_neighs\<close> assigns it and again after a
  pass has consumed it. A delta also refers to nearby forests (\<open>dneighs\<close>), of which only
  attributes of a forest are read.
\<close>

record qso =
  thingid :: int
  x_cart :: real
  y_cart :: real
  z_cart :: real
  z_qso :: real

record object = qso +
  q_r_comov :: real
  q_dist_m :: real
  q_weights :: real
  q_log_lambda :: real

record forest = qso +
  fname :: string
  order :: int
  d_z :: "real list"
  d_r_comov :: "real list"
  d_dist_m :: "real list"
  d_log_lambda :: "real list"
  d_weights :: "real list"
  d_delta :: "real list"
  neighbours :: "object list option"

record delta = forest +
  dneighs :: "forest list"

text \<open>
  \<^verbatim>\<open>qso.__xor__\<close>: the angle between two positions, the cosine capped at 1 before
  \<^verbatim>\<open>arccos\<close>.
\<close>

definition angle :: "'a qso_scheme \<Rightarrow> 'b qso_scheme \<Rightarrow> real" where
  "angle self d =
     (let c = x_cart d * x_cart self + y_cart d * y_cart self + z_cart d * z_cart self
      in arccos (if c \<ge> 1 then 1 else c))"

section \<open>Sequencing of fallible steps\<close>

definition ebind :: "error + 'a \<Rightarrow> ('a \<Rightarrow> error + 'b) \<Rightarrow> error + 'b" where
  "ebind m f = (case m of Inl e \<Rightarrow> Inl e | Inr x \<Rightarrow> f x)"

fun fold_err :: "('a \<Rightarrow> 's \<Rightarrow> error + 's) \<Rightarrow> 'a list \<Rightarrow> 's \<Rightarrow> error + 's" where
  "fold_err f [] s = Inr s"
| "fold_err f (x # xs) s = (case f x s of Inl e \<Rightarrow> Inl e | Inr s' \<Rightarrow> fold_err f xs s')"

text \<open>
  Reading and updating one entry of a numpy array: a negative index counts from the end,
  an index outside the array raises.
\<close>

definition norm_index :: "nat \<Rightarrow> int \<Rightarrow> error + nat" where
  "norm_index n i =
     (let j = (if i < 0 then i + int n else i)
      in if 0 \<le> j \<and> j < int n then Inr (nat j) else Inl IndexError)"

definition get_at :: "'a list \<Rightarrow> int \<Rightarrow> error + 'a" where
  "get_at xs i = ebind (norm_index (length xs) i) (\<lambda>k. Inr (xs ! k))"

definition add_at :: "'a::plus list \<Rightarrow> int \<Rightarrow> 'a \<Rightarrow> error + 'a list" where
  "add_at xs i v = ebind (norm_index (length xs) i) (\<lambda>k. Inr (xs[k := xs ! k + v]))"

text \<open>\<^verbatim>\<open>a[w]\<close> for a one-dimensional array and a boolean mask of the same length.\<close>

definition select :: "'a list \<Rightarrow> bool list \<Rightarrow> error + 'a list" where
  "select xs w =
     (if length w \<noteq> length xs then Inl IndexError
      else Inr (map fst (filter snd (zip xs w))))"

text \<open>\<^verbatim>\<open>w.sum()\<close> of a boolean array.\<close>

definition count_true :: "bool list \<Rightarrow> nat" where
  "count_true w = length (filter id w)"

text \<open>
  \<^verbatim>\<open>np.random.rand(n)\<close>: the generator is a stream of draws from \<open>[0, 1)\<close>, given as a
  function of the position, and a call consumes the next \<open>n\<close> of them.
\<close>

definition rand :: "(nat \<Rightarrow> real) \<Rightarrow> nat \<Rightarrow> nat \<Rightarrow> real list" where
  "rand rng pos n = map rng [pos..<pos + n]"

section \<open>The distortion-matrix kernel \<^verbatim>\<open>compute_dmat_forest_pairs\<close>\<close>

text \<open>Separations in comoving geometry, as every kernel but the angular branch has them.\<close>

definition sep_par :: "real list \<Rightarrow> real list \<Rightarrow> real list \<Rightarrow> nat \<Rightarrow> nat \<Rightarrow> real" where
  "sep_par r_comov1 r_comov2 ang i j = (r_comov1 ! i - r_comov2 ! j) * cos (ang ! j / 2)"

definition sep_trans :: "real list \<Rightarrow> real list \<Rightarrow> real list \<Rightarrow> nat \<Rightarrow> nat \<Rightarrow> real" where
  "sep_trans dist_m1 dist_m2 ang i j = (dist_m1 ! i + dist_m2 ! j) * sin (ang ! j / 2)"

definition dmat_selected ::
  "config \<Rightarrow> real list \<Rightarrow> real list \<Rightarrow> real list \<Rightarrow> real list \<Rightarrow> real list
     \<Rightarrow> (nat \<times> nat) list" where
  "dmat_selected cfg r_comov1 dist_m1 r_comov2 dist_m2 ang =
     nonzero2 (length r_comov1) (length r_comov2)
       (\<lambda>i j. window cfg (sep_par r_comov1 r_comov2 ang i j)
                          (sep_trans dist_m1 dist_m2 ang i j))"

record dmat_acc =
  weights_dmat :: "real list"
  dmat :: "real list"
  r_par_eff :: "real list"
  r_trans_eff :: "real list"
  z_eff :: "real list"
  weight_eff :: "real list"

text \<open>
  One surviving pair of the final loop: its data bin, its model bin, its weight and the
  flat index \<open>ij\<close> from which the loop recovers the pixel \<open>i\<close> and the object \<open>j\<close>.
\<close>

definition dmat_pair_step ::
  "config \<Rightarrow> nat \<Rightarrow> nat \<Rightarrow> int list \<Rightarrow> real list \<Rightarrow> real list \<Rightarrow> real list
     \<Rightarrow> int \<times> int \<times> real \<times> int \<Rightarrow> real list \<Rightarrow> error + real list" where
  "dmat_pair_step cfg num_pixels1 num_pixels2 unique_model_bins eta2 eta4
                  log_lambda_minus_mean1 = (\<lambda>(bin, model_bin, weights12_index, ij_index) dmat0.
     let nm = int (num_model_bins_r_par cfg * num_model_bins_r_trans cfg) in
     ebind (add_at dmat0 (model_bin + nm * bin) weights12_index) (\<lambda>dmat1.
       let i = ij_index mod int num_pixels1;
           j = (ij_index - i) div int num_pixels1
       in fold_err (\<lambda>unique_model_bin d.
            ebind (norm_index (length d) (unique_model_bin + nm * bin)) (\<lambda>k.
            ebind (get_at eta2 (j + int num_pixels2 * unique_model_bin)) (\<lambda>e2.
            ebind (get_at eta4 (j + int num_pixels2 * unique_model_bin)) (\<lambda>e4.
            ebind (get_at log_lambda_minus_mean1 i) (\<lambda>l.
              Inr (d[k := d ! k - weights12_index * (e2 + e4 * l)]))))))
            unique_model_bins dmat1))"

text \<open>
  The kernel updates the six accumulators in place and returns nothing; the model returns
  the updated accumulators. \<^verbatim>\<open>np.average\<close> raises when the weights sum to zero. When the
  weighted second moment of the wavelength offset is zero and a pair survives, the weights
  of \<open>eta4\<close> are quotients by zero and the distortion matrix receives \<^verbatim>\<open>nan\<close>: the model
  reports \<open>NonFinite\<close> at the end, after every step that can raise.
\<close>

definition compute_dmat_forest_pairs ::
  "config \<Rightarrow> real list \<Rightarrow> real list \<Rightarrow> real list \<Rightarrow> real list \<Rightarrow> real list
     \<Rightarrow> real list \<Rightarrow> real list \<Rightarrow> real list \<Rightarrow> real list \<Rightarrow> real list
     \<Rightarrow> dmat_acc \<Rightarrow> error + dmat_acc" where
  "compute_dmat_forest_pairs cfg log_lambda1 r_comov1 dist_m1 z1 weights1
                                 r_comov2 dist_m2 z2 weights2 ang acc =
     (if \<not> (length log_lambda1 = length r_comov1 \<and> length dist_m1 = length r_comov1
             \<and> length z1 = length r_comov1 \<and> length weights1 = length r_comov1
             \<and> length dist_m2 = length r_comov2 \<and> length z2 = length r_comov2
             \<and> length weights2 = length r_comov2 \<and> length ang = length r_comov2)
      then Inl ValueError
      else
        let r_par = sep_par r_comov1 r_comov2 ang;
            r_trans = sep_trans dist_m1 dist_m2 ang;
            z = (\<lambda>i j. (z1 ! i + z2 ! j) / 2);
            w = dmat_selected cfg r_comov1 dist_m1 r_comov2 dist_m2 ang;
            bins = masked w (\<lambda>i j. bin_trans cfg (num_bins_r_trans cfg) (r_trans i j)
                       + int (num_bins_r_trans cfg) * bin_par cfg (num_bins_r_par cfg) (r_par i j));
            model_bins = masked w (\<lambda>i j.
                       bin_trans cfg (num_model_bins_r_trans cfg) (r_trans i j)
                       + int (num_model_bins_r_trans cfg)
                         * bin_par cfg (num_model_bins_r_par cfg) (r_par i j));
            sum_weights1 = sum_list weights1
        in if sum_weights1 = 0 then Inl ZeroDivisionError
           else
        let mean_log_lambda1 = sum_list (map2 (*) log_lambda1 weights1) / sum_weights1;
            log_lambda_minus_mean1 = map (\<lambda>l. l - mean_log_lambda1) log_lambda1;
            sum_weights_square_log_lambda_minus_mean1 =
              sum_list (map2 (\<lambda>w1 l. w1 * l\<^sup>2) weights1 log_lambda_minus_mean1);
            num_pixels1 = length log_lambda1;
            num_pixels2 = length r_comov2;
            ij = masked w (\<lambda>i j. int i + int num_pixels1 * int j);
            weights12 = masked w (\<lambda>i j. weights1 ! i * weights2 ! j);
            nm = num_model_bins_r_par cfg * num_model_bins_r_trans cfg
        in if r_trans_max cfg = 0 \<and> w \<noteq> [] then Inl ValueError
           else
             ebind (bincount model_bins (map2 (*) weights12 (masked w r_par))) (\<lambda>rebin.
             ebind (add_prefix (r_par_eff acc) rebin) (\<lambda>r_par_eff'.
             ebind (bincount model_bins (map2 (*) weights12 (masked w r_trans))) (\<lambda>rebin.
             ebind (add_prefix (r_trans_eff acc) rebin) (\<lambda>r_trans_eff'.
             ebind (bincount model_bins (map2 (*) weights12 (masked w z))) (\<lambda>rebin.
             ebind (add_prefix (z_eff acc) rebin) (\<lambda>z_eff'.
             ebind (bincount model_bins weights12) (\<lambda>rebin.
             ebind (add_prefix (weight_eff acc) rebin) (\<lambda>weight_eff'.
             ebind (bincount bins weights12) (\<lambda>rebin.
             ebind (add_prefix (weights_dmat acc) rebin) (\<lambda>weights_dmat'.
             ebind (bincount
                      (map2 (\<lambda>t m. (t - t mod int num_pixels1) div int num_pixels1
                                     + int num_pixels2 * m) ij model_bins)
                      (map (\<lambda>x. x / sum_weights1) (masked w (\<lambda>i j. weights1 ! i))))
                   (\<lambda>rebin.
             ebind (add_prefix (replicate (nm * num_pixels2) 0) rebin) (\<lambda>eta2.
             ebind (bincount
                      (map2 (\<lambda>t m. (t - t mod int num_pixels1) div int num_pixels1
                                     + int num_pixels2 * m) ij model_bins)
                      (map (\<lambda>x. x / sum_weights_square_log_lambda_minus_mean1)
                           (masked w (\<lambda>i j. weights1 ! i * log_lambda_minus_mean1 ! i))))
                   (\<lambda>rebin.
             ebind (add_prefix (replicate (nm * num_pixels2) 0) rebin) (\<lambda>eta4.
             ebind (fold_err
                      (dmat_pair_step cfg num_pixels1 num_pixels2
                         (sort (remdups model_bins)) eta2 eta4 log_lambda_minus_mean1)
                      (zip bins (zip model_bins (zip weights12 ij))) (dmat acc)) (\<lambda>dmat'.
             if sum_weights_square_log_lambda_minus_mean1 = 0 \<and> w \<noteq> [] then Inl NonFinite
             else Inr (acc\<lparr>weights_dmat := weights_dmat', dmat := dmat',
                            r_par_eff := r_par_eff', r_trans_eff := r_trans_eff',
                            z_eff := z_eff', weight_eff := weight_eff'\<rparr>)))))))))))))))))"

section \<open>The driver \<^verbatim>\<open>compute_dmat\<close>\<close>

text \<open>
  The state of a pass: the accumulators, the two pair counters and the position in the
  stream of random draws.
\<close>

record dmat_run =
  arrays :: dmat_acc
  num_pairs :: nat
  num_pairs_used :: nat
  rng_pos :: nat

text \<open>
  The body of the inner loop for one delta. It returns the delta as the pass leaves it. A
  delta of which no neighbour is kept is left by \<^verbatim>\<open>continue\<close> before the counters are
  updated and before its neighbour list is cleared.
\<close>

definition compute_dmat_delta ::
  "config \<Rightarrow> (nat \<Rightarrow> real) \<Rightarrow> delta \<Rightarrow> dmat_run \<Rightarrow> error + (delta \<times> dmat_run)" where
  "compute_dmat_delta cfg rng delta1 st =
     (case neighbours delta1 of
        None \<Rightarrow> Inl TypeError
      | Some nbs \<Rightarrow>
          let w = map (\<lambda>r. r > reject cfg) (rand rng (rng_pos st) (length nbs));
              st1 = st\<lparr>rng_pos := rng_pos st + length nbs\<rparr>
          in if count_true w = 0 then Inr (delta1, st1)
             else
               let st2 = st1\<lparr>num_pairs := num_pairs st1 + length nbs,
                             num_pairs_used := num_pairs_used st1 + count_true w\<rparr>
               in ebind (select nbs w) (\<lambda>neighbours_w.
                  ebind (compute_dmat_forest_pairs cfg
                           (d_log_lambda delta1) (d_r_comov delta1) (d_dist_m delta1)
                           (d_z delta1) (d_weights delta1)
                           (map q_r_comov neighbours_w) (map q_dist_m neighbours_w)
                           (map z_qso neighbours_w) (map q_weights neighbours_w)
                           (map (angle delta1) neighbours_w) (arrays st2)) (\<lambda>arrays'.
                  Inr (delta1\<lparr>neighbours := None\<rparr>, st2\<lparr>arrays := arrays'\<rparr>))))"

text \<open>
  The entities of a pass live in the dictionary \<open>data\<close>, from healpix number to the list of
  its deltas. A sweep over a list of deltas threads the state and collects the deltas as
  the pass leaves them; a sweep over the healpixes writes each list back.
\<close>

fun sweep :: "('d \<Rightarrow> 's \<Rightarrow> error + ('d \<times> 's)) \<Rightarrow> 'd list \<Rightarrow> 's \<Rightarrow> error + ('d list \<times> 's)" where
  "sweep f [] s = Inr ([], s)"
| "sweep f (d # ds) s =
     (case f d s of
        Inl e \<Rightarrow> Inl e
      | Inr (d', s') \<Rightarrow>
          (case sweep f ds s' of Inl e \<Rightarrow> Inl e | Inr (ds', s'') \<Rightarrow> Inr (d' # ds', s'')))"

fun sweep_healpixs ::
  "('d \<Rightarrow> 's \<Rightarrow> error + ('d \<times> 's)) \<Rightarrow> nat list \<Rightarrow> (nat \<rightharpoonup> 'd list) \<Rightarrow> 's
     \<Rightarrow> error + ((nat \<rightharpoonup> 'd list) \<times> 's)" where
  "sweep_healpixs f [] data s = Inr (data, s)"
| "sweep_healpixs f (healpix # healpixs) data s =
     (case data healpix of
        None \<Rightarrow> Inl KeyError
      | Some ds \<Rightarrow>
          (case sweep f ds s of
             Inl e \<Rightarrow> Inl e
           | Inr (ds', s') \<Rightarrow> sweep_healpixs f healpixs (data(healpix \<mapsto> ds')) s'))"

definition zeros :: "nat \<Rightarrow> real list" where
  "zeros n = replicate n 0"

definition dmat_acc0 :: "config \<Rightarrow> dmat_acc" where
  "dmat_acc0 cfg =
     \<lparr>weights_dmat = zeros (num_bins_r_par cfg * num_bins_r_trans cfg),
      dmat = zeros (num_bins_r_par cfg * num_bins_r_trans cfg
                    * num_model_bins_r_trans cfg * num_model_bins_r_par cfg),
      r_par_eff = zeros (num_model_bins_r_trans cfg * num_model_bins_r_par cfg),
      r_trans_eff = zeros (num_model_bins_r_trans cfg * num_model_bins_r_par cfg),
      z_eff = zeros (num_model_bins_r_trans cfg * num_model_bins_r_par cfg),
      weight_eff = zeros (num_model_bins_r_trans cfg * num_model_bins_r_par cfg)\<rparr>"

text \<open>
  \<^verbatim>\<open>compute_dmat\<close> returns the accumulators and the counters (the final \<^verbatim>\<open>reshape\<close> of
  \<open>dmat\<close> to two dimensions changes no entry and is not modelled); the model also returns
  the dictionary of deltas as the pass leaves it.
\<close>

definition compute_dmat ::
  "config \<Rightarrow> (nat \<Rightarrow> real) \<Rightarrow> nat list \<Rightarrow> (nat \<rightharpoonup> delta list)
     \<Rightarrow> error + ((nat \<rightharpoonup> delta list) \<times> dmat_run)" where
  "compute_dmat cfg rng healpixs data =
     sweep_healpixs (compute_dmat_delta cfg rng) healpixs data
       \<lparr>arrays = dmat_acc0 cfg, num_pairs = 0, num_pairs_used = 0, rng_pos = 0\<rparr>"

section \<open>The driver \<^verbatim>\<open>compute_xi\<close>\<close>

record xi_acc =
  acc_xi :: "real list"
  acc_weights :: "real list"
  acc_r_par :: "real list"
  acc_r_trans :: "real list"
  acc_z :: "real list"
  acc_num_pairs :: "int list"

definition xi_acc0 :: "nat \<Rightarrow> xi_acc" where
  "xi_acc0 n = \<lparr>acc_xi = zeros n, acc_weights = zeros n, acc_r_par = zeros n,
                 acc_r_trans = zeros n, acc_z = zeros n, acc_num_pairs = replicate n 0\<rparr>"

text \<open>Adding the six rebinned arrays of one delta to the totals.\<close>

definition xi_accumulate ::
  "real list \<times> real list \<times> real list \<times> real list \<times> real list \<times> real list
     \<Rightarrow> xi_acc \<Rightarrow> error + xi_acc" where
  "xi_accumulate = (\<lambda>(rebin_weight, rebin_xi, rebin_r_par, rebin_r_trans, rebin_z,
                       rebin_num_pairs) a.
     ebind (add_prefix (acc_xi a) rebin_xi) (\<lambda>xi'.
     ebind (add_prefix (acc_weights a) rebin_weight) (\<lambda>weights'.
     ebind (add_prefix (acc_r_par a) rebin_r_par) (\<lambda>r_par'.
     ebind (add_prefix (acc_r_trans a) rebin_r_trans) (\<lambda>r_trans'.
     ebind (add_prefix (acc_z a) rebin_z) (\<lambda>z'.
     ebind (add_prefix (acc_num_pairs a) (map astype_int rebin_num_pairs)) (\<lambda>num_pairs'.
       Inr \<lparr>acc_xi = xi', acc_weights = weights', acc_r_par = r_par',
            acc_r_trans = r_trans', acc_z = z', acc_num_pairs = num_pairs'\<rparr>)))))))"

text \<open>
  The body of the loop of \<^verbatim>\<open>compute_xi\<close> for one delta: a delta with neighbours is binned
  by the kernel, in comoving or in angular geometry, and every delta ends with its
  neighbour list cleared.
\<close>

definition compute_xi_delta :: "config \<Rightarrow> delta \<Rightarrow> xi_acc \<Rightarrow> error + (delta \<times> xi_acc)" where
  "compute_xi_delta cfg delta0 a =
     (case neighbours delta0 of
        None \<Rightarrow> Inl AttributeError
      | Some nbs \<Rightarrow>
          if nbs \<noteq> [] then
            let ang = map (angle delta0) nbs;
                z_qso = map qso.z_qso nbs;
                weights_qso = map q_weights nbs
            in ebind
                 (if ang_correlation cfg then
                    let lambda_qso = map (\<lambda>obj. 10 powr q_log_lambda obj) nbs;
                        lambda1 = map (\<lambda>l. 10 powr l) (d_log_lambda delta0)
                    in compute_xi_forest_pairs cfg (d_z delta0) lambda1 lambda1
                         (d_weights delta0) (d_delta delta0) z_qso lambda_qso lambda_qso
                         weights_qso ang
                  else
                    compute_xi_forest_pairs cfg (d_z delta0) (d_r_comov delta0)
                      (d_dist_m delta0) (d_weights delta0) (d_delta delta0) z_qso
                      (map q_r_comov nbs) (map q_dist_m nbs) weights_qso ang)
                 (\<lambda>rebin. ebind (xi_accumulate rebin a) (\<lambda>a'.
                    Inr (delta0\<lparr>neighbours := None\<rparr>, a')))
          else Inr (delta0\<lparr>neighbours := None\<rparr>, a))"

text \<open>
  The final normalisation \<^verbatim>\<open>w = weights > 0; x[w] /= weights[w]\<close> of one accumulator.
\<close>

definition normalise :: "real list \<Rightarrow> real list \<Rightarrow> real list" where
  "normalise weights xs = map2 (\<lambda>x w. if w > 0 then x / w else x) xs weights"

text \<open>
  \<open>compute_xi_sums\<close> is the loop of \<^verbatim>\<open>compute_xi\<close> over the healpixes, \<open>compute_xi\<close> the
  whole function: the sums, normalised, in a record that keeps the weight sums as they
  are. The model also returns the dictionary of deltas as the pass leaves it.
\<close>

definition compute_xi_sums ::
  "config \<Rightarrow> nat list \<Rightarrow> (nat \<rightharpoonup> delta list) \<Rightarrow> error + ((nat \<rightharpoonup> delta list) \<times> xi_acc)"
where
  "compute_xi_sums cfg healpixs data =
     sweep_healpixs (compute_xi_delta cfg) healpixs data
       (xi_acc0 (num_bins_r_par cfg * num_bins_r_trans cfg))"

definition compute_xi ::
  "config \<Rightarrow> nat list \<Rightarrow> (nat \<rightharpoonup> delta list) \<Rightarrow> error + ((nat \<rightharpoonup> delta list) \<times> xi_acc)"
where
  "compute_xi cfg healpixs data =
     ebind (compute_xi_sums cfg healpixs data) (\<lambda>(data', a).
       Inr (data', a\<lparr>acc_xi := normalise (acc_weights a) (acc_xi a),
                      acc_r_par := normalise (acc_weights a) (acc_r_par a),
                      acc_r_trans := normalise (acc_weights a) (acc_r_trans a),
                      acc_z := normalise (acc_weights a) (acc_z a)\<rparr>))"

section \<open>Counting pairs\<close>

text \<open>
  Two counts over the deltas of a pass, taken in the order of the pass, to state what the
  counters of \<^verbatim>\<open>compute_dmat\<close> hold. \<open>total_neighbours\<close> is the number of
  delta-neighbour pairs. \<open>kept_delta_pairs\<close> follows the words "the neighbours of the deltas
  that had at least one retained neighbour": it walks along the stream of draws as the
  pass does and adds the neighbour count of a delta only when one of its draws exceeds
  \<open>reject\<close>.
\<close>

fun total_neighbours :: "delta list \<Rightarrow> nat" where
  "total_neighbours [] = 0"
| "total_neighbours (d # ds) =
     (case neighbours d of None \<Rightarrow> 0 | Some nbs \<Rightarrow> length nbs) + total_neighbours ds"

fun kept_delta_pairs :: "config \<Rightarrow> (nat \<Rightarrow> real) \<Rightarrow> nat \<Rightarrow> delta list \<Rightarrow> nat" where
  "kept_delta_pairs cfg rng pos [] = 0"
| "kept_delta_pairs cfg rng pos (d # ds) =
     (case neighbours d of
        None \<Rightarrow> kept_delta_pairs cfg rng pos ds
      | Some nbs \<Rightarrow>
          (if \<exists>r \<in> set (rand rng pos (length nbs)). r > reject cfg then length nbs else 0)
          + kept_delta_pairs cfg rng (pos + length nbs) ds)"

section \<open>Notions used to state the normalisation law\<close>




section \<open>The driver \<^verbatim>\<open>compute_metal_dmat\<close>\<close>

text \<open>
  \<^verbatim>\<open>((1 + z)/(1 + z_ref))**(a - 1)\<close>, the redshift-evolution weight. The model follows it for
  a positive base, as every redshift above \<open>-1\<close> gives; for another base it reports
  \<open>NonFinite\<close>.
\<close>

definition z_evol_weight :: "real \<Rightarrow> real \<Rightarrow> real \<Rightarrow> error + real" where
  "z_evol_weight zref a z =
     (if 1 + zref = 0 \<or> (1 + z) / (1 + zref) \<le> 0 then Inl NonFinite
      else Inr (((1 + z) / (1 + zref)) powr (a - 1)))"

text \<open>Mapping a fallible function over an array, stopping at the first error.\<close>

fun map_err :: "('a \<Rightarrow> error + 'b) \<Rightarrow> 'a list \<Rightarrow> error + 'b list" where
  "map_err f [] = Inr []"
| "map_err f (x # xs) =
     (case f x of
        Inl e \<Rightarrow> Inl e
      | Inr y \<Rightarrow> (case map_err f xs of Inl e \<Rightarrow> Inl e | Inr ys \<Rightarrow> Inr (y # ys)))"

text \<open>
  The indices of a one-dimensional array of length \<open>n\<close> at which a mask holds, and the
  array read at them (\<^verbatim>\<open>a[w]\<close>).
\<close>

definition nonzero1 :: "nat \<Rightarrow> (nat \<Rightarrow> bool) \<Rightarrow> nat list" where
  "nonzero1 n w = filter w [0..<n]"

definition masked1 :: "nat list \<Rightarrow> (nat \<Rightarrow> 'a) \<Rightarrow> 'a list" where
  "masked1 sel a = map a sel"

text \<open>
  The body of the loop over the objects: the pixels of the forest (already cut) against
  one object \<open>obj2\<close>. The data bin comes from the geometry of the forest's own absorber,
  the model bin from the geometry of the metal absorber.
\<close>

definition metal_object_step ::
  "config \<Rightarrow> string \<Rightarrow> delta \<Rightarrow> real list \<Rightarrow> real list \<Rightarrow> real list \<Rightarrow> real list
     \<Rightarrow> real list \<Rightarrow> real list \<Rightarrow> object \<Rightarrow> dmat_acc \<Rightarrow> error + dmat_acc" where
  "metal_object_step cfg abs_igm delta1 r_comov1 dist_m1 weights1 z1_abs1 r_comov1_abs1
                     dist_m1_abs1 obj2 a =
     (let ang = angle delta1 obj2;
          r_comov2 = q_r_comov obj2;
          dist_m2 = q_dist_m obj2;
          weights2 = q_weights obj2;
          z2 = z_qso obj2;
          n = length r_comov1;
          r_par = (\<lambda>i. (r_comov1 ! i - r_comov2) * cos (ang / 2));
          r_trans = (\<lambda>i. (dist_m1 ! i + dist_m2) * sin (ang / 2));
          weights12 = (\<lambda>i. weights1 ! i * weights2);
          w = nonzero1 n (\<lambda>i. window cfg (r_par i) (r_trans i));
          bins = (\<lambda>i. bin_trans cfg (num_bins_r_trans cfg) (r_trans i)
                      + int (num_bins_r_trans cfg) * bin_par cfg (num_bins_r_par cfg) (r_par i))
      in if r_trans_max cfg = 0 \<and> w \<noteq> [] then Inl ValueError
         else
           ebind (bincount (masked1 w bins) (masked1 w weights12)) (\<lambda>rebin.
           ebind (add_prefix (weights_dmat a) rebin) (\<lambda>weights_dmat'.
           let r_par_abs = (\<lambda>i. (r_comov1_abs1 ! i - r_comov2) * cos (ang / 2));
               r_trans_abs = (\<lambda>i. (dist_m1_abs1 ! i + dist_m2) * sin (ang / 2))
           in case alpha_abs cfg abs_igm of
                None \<Rightarrow> Inl KeyError
              | Some alpha \<Rightarrow>
           ebind (map_err (z_evol_weight (z_ref cfg) alpha) z1_abs1) (\<lambda>z_weight_evol.
           let model_bins = (\<lambda>i. bin_trans cfg (num_model_bins_r_trans cfg) (r_trans_abs i)
                                 + int (num_model_bins_r_trans cfg)
                                   * bin_par cfg (num_model_bins_r_par cfg) (r_par_abs i));
               w' = nonzero1 n (\<lambda>i. window cfg (r_par i) (r_trans i)
                                     \<and> window cfg (r_par_abs i) (r_trans_abs i));
               nm = int (num_model_bins_r_par cfg * num_model_bins_r_trans cfg);
               ww = masked1 w' (\<lambda>i. weights12 i * z_weight_evol ! i)
           in ebind (bincount (masked1 w' (\<lambda>i. model_bins i + nm * bins i)) ww) (\<lambda>rebin.
              ebind (add_prefix (dmat a) rebin) (\<lambda>dmat'.
              ebind (bincount (masked1 w' model_bins)
                       (masked1 w' (\<lambda>i. r_par_abs i * weights12 i * z_weight_evol ! i)))
                    (\<lambda>rebin.
              ebind (add_prefix (r_par_eff a) rebin) (\<lambda>r_par_eff'.
              ebind (bincount (masked1 w' model_bins)
                       (masked1 w' (\<lambda>i. r_trans_abs i * weights12 i * z_weight_evol ! i)))
                    (\<lambda>rebin.
              ebind (add_prefix (r_trans_eff a) rebin) (\<lambda>r_trans_eff'.
              ebind (bincount (masked1 w' model_bins)
                       (masked1 w' (\<lambda>i. (z1_abs1 ! i + z2) / 2 * weights12 i
                                          * z_weight_evol ! i)))
                    (\<lambda>rebin.
              ebind (add_prefix (z_eff a) rebin) (\<lambda>z_eff'.
              ebind (bincount (masked1 w' model_bins) ww) (\<lambda>rebin.
              ebind (add_prefix (weight_eff a) rebin) (\<lambda>weight_eff'.
                Inr \<lparr>weights_dmat = weights_dmat', dmat = dmat', r_par_eff = r_par_eff',
                     r_trans_eff = r_trans_eff', z_eff = z_eff',
                     weight_eff = weight_eff'\<rparr>))))))))))))))"

text \<open>
  The body of the loop over the deltas. The mask \<open>w\<close> of the random draw is counted into
  \<open>num_pairs_used\<close> and then overwritten by the mask of the redshift cut on the pixels; it
  is the second mask that indexes the neighbours in the \<^verbatim>\<open>for\<close> statement, and a boolean
  mask whose length is not the number of neighbours raises. \<open>metal_processed\<close> is the list
  of objects the loop goes through.
\<close>

definition metal_cut :: "config \<Rightarrow> string \<Rightarrow> delta \<Rightarrow> error + (real list \<times> bool list)" where
  "metal_cut cfg abs_igm delta1 =
     (case absorber_igm cfg abs_igm of
        None \<Rightarrow> Inl KeyError
      | Some lam \<Rightarrow>
          if lam = 0 then Inl NonFinite
          else
            let z1_abs1 = map (\<lambda>l. 10 powr l / lam - 1) (d_log_lambda delta1)
            in Inr (z1_abs1, map (\<lambda>z. z < z_qso delta1) z1_abs1))"

definition metal_processed :: "config \<Rightarrow> string \<Rightarrow> delta \<Rightarrow> error + object list" where
  "metal_processed cfg abs_igm delta1 =
     (case neighbours delta1 of
        None \<Rightarrow> Inl TypeError
      | Some nbs \<Rightarrow>
          ebind (metal_cut cfg abs_igm delta1) (\<lambda>(z1_abs1, w).
          ebind (select (d_r_comov delta1) w) (\<lambda>r_comov1.
            if r_comov1 = [] then Inr [] else select nbs w)))"

definition compute_metal_dmat_delta ::
  "config \<Rightarrow> string \<Rightarrow> (nat \<Rightarrow> real) \<Rightarrow> delta \<Rightarrow> dmat_run \<Rightarrow> error + (delta \<times> dmat_run)"
where
  "compute_metal_dmat_delta cfg abs_igm rng delta1 st =
     (case neighbours delta1 of
        None \<Rightarrow> Inl TypeError
      | Some nbs \<Rightarrow>
          let w = map (\<lambda>r. r > reject cfg) (rand rng (rng_pos st) (length nbs));
              st1 = st\<lparr>rng_pos := rng_pos st + length nbs,
                       num_pairs := num_pairs st + length nbs,
                       num_pairs_used := num_pairs_used st + count_true w\<rparr>
          in ebind (metal_cut cfg abs_igm delta1) (\<lambda>(z1_abs1_all, w).
             let r_comov1_abs1_all = map (get_r_comov cfg) z1_abs1_all;
                 dist_m1_abs1_all = map (get_dist_m cfg) z1_abs1_all
             in ebind (select (d_r_comov delta1) w) (\<lambda>r_comov1.
                ebind (select (d_dist_m delta1) w) (\<lambda>dist_m1.
                ebind (select (d_weights delta1) w) (\<lambda>weights1.
                ebind (select z1_abs1_all w) (\<lambda>z1_abs1.
                ebind (select r_comov1_abs1_all w) (\<lambda>r_comov1_abs1.
                ebind (select dist_m1_abs1_all w) (\<lambda>dist_m1_abs1.
                  if r_comov1 = [] then Inr (delta1, st1)
                  else
                    ebind (select nbs w) (\<lambda>objs2.
                    ebind (fold_err
                             (metal_object_step cfg abs_igm delta1 r_comov1 dist_m1 weights1
                                z1_abs1 r_comov1_abs1 dist_m1_abs1)
                             objs2 (arrays st1)) (\<lambda>arrays'.
                      Inr (delta1\<lparr>neighbours := None\<rparr>, st1\<lparr>arrays := arrays'\<rparr>)))))))))))"

definition compute_metal_dmat ::
  "config \<Rightarrow> (nat \<Rightarrow> real) \<Rightarrow> nat list \<Rightarrow> string \<Rightarrow> (nat \<rightharpoonup> delta list)
     \<Rightarrow> error + ((nat \<rightharpoonup> delta list) \<times> dmat_run)" where
  "compute_metal_dmat cfg rng healpixs abs_igm data =
     sweep_healpixs (compute_metal_dmat_delta cfg abs_igm rng) healpixs data
       \<lparr>arrays = dmat_acc0 cfg, num_pairs = 0, num_pairs_used = 0, rng_pos = 0\<rparr>"

section \<open>The Wick covariance engine\<close>

text \<open>
  A square matrix is the list of its rows. \<^verbatim>\<open>T[p, q] += v\<close> normalises each index as numpy
  does; \<open>mat_add_sym\<close> is the pair of statements \<^verbatim>\<open>T[p1,p2] += wcorr; T[p2,p1] += wcorr\<close>.
\<close>

type_synonym matrix = "real list list"

definition zeros2 :: "nat \<Rightarrow> matrix" where
  "zeros2 n = replicate n (replicate n 0)"

definition mat_add :: "matrix \<Rightarrow> int \<Rightarrow> int \<Rightarrow> real \<Rightarrow> error + matrix" where
  "mat_add T p q v =
     ebind (norm_index (length T) p) (\<lambda>a.
     ebind (norm_index (length (T ! a)) q) (\<lambda>b.
       Inr (T[a := (T ! a)[b := T ! a ! b + v]])))"

definition mat_add_sym :: "matrix \<Rightarrow> int \<Rightarrow> int \<Rightarrow> real \<Rightarrow> error + matrix" where
  "mat_add_sym T p1 p2 wcorr = ebind (mat_add T p1 p2 wcorr) (\<lambda>T'. mat_add T' p2 p1 wcorr)"

record wick_acc =
  wAll :: "real list"
  num_pairs_wick :: "int list"
  T1 :: matrix
  T2 :: matrix
  T3 :: matrix
  T4 :: matrix
  T5 :: matrix
  T6 :: matrix

text \<open>
  The inner loop of \<^verbatim>\<open>fill_wickT1234\<close> over \<open>k2\<close>, for a fixed \<open>k1\<close>: a later pair with the
  same object goes to \<open>T2\<close>, one with the same pixel to \<open>T3\<close>, any other to \<open>T4\<close>.
\<close>

definition wick1234_inner ::
  "(nat \<Rightarrow> nat \<Rightarrow> real) \<Rightarrow> real list \<Rightarrow> real list \<Rightarrow> int list \<Rightarrow> real list \<Rightarrow> real list
     \<Rightarrow> nat list \<Rightarrow> nat list \<Rightarrow> nat \<Rightarrow> nat \<Rightarrow> wick_acc \<Rightarrow> error + wick_acc" where
  "wick1234_inner c1d_1 zw1 zw2 ba weights we1 idxPix idxQso k1 k2 a =
     (let p1 = ba ! k1; i1 = idxPix ! k1; q1 = idxQso ! k1;
          p2 = ba ! k2; i2 = idxPix ! k2; q2 = idxQso ! k2
      in if q1 = q2 then
           ebind (mat_add_sym (T2 a) p1 p2 (c1d_1 i1 i2 * (zw2 ! q1)\<^sup>2)) (\<lambda>T.
             Inr (a\<lparr>T2 := T\<rparr>))
         else if i1 = i2 then
           ebind (mat_add_sym (T3 a) p1 p2
                    (weights ! k1 * weights ! k2 / we1 ! k1 * zw1 ! i1)) (\<lambda>T.
             Inr (a\<lparr>T3 := T\<rparr>))
         else
           ebind (mat_add_sym (T4 a) p1 p2 (c1d_1 i1 i2 * zw2 ! q1 * zw2 ! q2)) (\<lambda>T.
             Inr (a\<lparr>T4 := T\<rparr>)))"

text \<open>
  The outer loop body for \<open>k1\<close>. A pixel weight of zero makes the quotient by \<open>we1\<close> a
  division by zero.
\<close>

definition wick1234_outer ::
  "(nat \<Rightarrow> nat \<Rightarrow> real) \<Rightarrow> real list \<Rightarrow> real list \<Rightarrow> int list \<Rightarrow> real list \<Rightarrow> real list
     \<Rightarrow> nat list \<Rightarrow> nat list \<Rightarrow> nat \<Rightarrow> wick_acc \<Rightarrow> error + wick_acc" where
  "wick1234_outer c1d_1 zw1 zw2 ba weights we1 idxPix idxQso k1 a =
     (let p1 = ba ! k1; i1 = idxPix ! k1
      in ebind (add_at (wAll a) p1 (weights ! k1)) (\<lambda>wAll'.
         ebind (add_at (num_pairs_wick a) p1 1) (\<lambda>num_pairs_wick'.
         if we1 ! k1 = 0 then Inl ZeroDivisionError
         else
           ebind (mat_add (T1 a) p1 p1 ((weights ! k1)\<^sup>2 / we1 ! k1 * zw1 ! i1)) (\<lambda>T1'.
             fold_err (wick1234_inner c1d_1 zw1 zw2 ba weights we1 idxPix idxQso k1)
               [k1 + 1..<length ba]
               (a\<lparr>wAll := wAll', num_pairs_wick := num_pairs_wick', T1 := T1'\<rparr>)))))"

text \<open>
  \<^verbatim>\<open>fill_wickT1234\<close>. The transverse separation is formed from the comoving distances
  \<open>r_comov1\<close> and \<open>r_comov2\<close>. With a transverse window of width zero the bin of a surviving
  pair is the cast of \<^verbatim>\<open>-inf\<close>, far outside every array.
\<close>

definition fill_wickT1234 ::
  "config \<Rightarrow> real list \<Rightarrow> real list \<Rightarrow> real list \<Rightarrow> real list \<Rightarrow> real list \<Rightarrow> real list
     \<Rightarrow> real list \<Rightarrow> (nat \<Rightarrow> nat \<Rightarrow> real) \<Rightarrow> wick_acc \<Rightarrow> error + wick_acc" where
  "fill_wickT1234 cfg ang r_comov1 r_comov2 z1 z2 weights1 weights2 c1d_1 a =
     (if \<not> (length z1 = length r_comov1 \<and> length weights1 = length r_comov1
             \<and> length z2 = length r_comov2 \<and> length weights2 = length r_comov2
             \<and> length ang = length r_comov2)
      then Inl ValueError
      else
        let r_par = sep_par r_comov1 r_comov2 ang;
            r_trans = sep_trans r_comov1 r_comov2 ang
        in ebind (map_err (z_evol_weight (z_ref cfg) (z_evol_del cfg)) z1) (\<lambda>zw1.
           ebind (map_err (z_evol_weight (z_ref cfg) (z_evol_obj cfg)) z2) (\<lambda>zw2.
           let w = nonzero2 (length r_comov1) (length r_comov2)
                     (\<lambda>i j. window cfg (r_par i j) (r_trans i j))
           in if w = [] then Inr a
              else if r_trans_max cfg = 0 then Inl IndexError
              else
                let ba = masked w (\<lambda>i j. bin_trans cfg (num_bins_r_trans cfg) (r_trans i j)
                            + int (num_bins_r_trans cfg)
                              * bin_par cfg (num_bins_r_par cfg) (r_par i j));
                    weights = masked w (\<lambda>i j. weights1 ! i * weights2 ! j);
                    we1 = masked w (\<lambda>i j. weights1 ! i);
                    idxPix = map fst w;
                    idxQso = map snd w
                in fold_err (wick1234_outer c1d_1 zw1 zw2 ba weights we1 idxPix idxQso)
                     [0..<length ba] a)))"

text \<open>
  \<^verbatim>\<open>fill_wickT56\<close>, first part: the table \<open>cf13\<close> of the 3-D covariance model between the
  pixels of forest 1 (columns) and of forest 3 (rows). Entries outside the window of the
  model read the model at index 0 and are then set to zero.
\<close>

definition w13 :: "config \<Rightarrow> real \<Rightarrow> real list \<Rightarrow> real list \<Rightarrow> nat \<Rightarrow> nat \<Rightarrow> bool" where
  "w13 cfg ang13 r_comov1 r3 a b \<longleftrightarrow>
     \<bar>r_comov1 ! b - r3 ! a\<bar> * cos (ang13 / 2) < cfWick_rp_max cfg
     \<and> (r_comov1 ! b + r3 ! a) * sin (ang13 / 2) < cfWick_rt_max cfg
     \<and> \<bar>r_comov1 ! b - r3 ! a\<bar> * cos (ang13 / 2) \<ge> cfWick_rp_min cfg"

definition ba13 :: "config \<Rightarrow> real \<Rightarrow> real list \<Rightarrow> real list \<Rightarrow> nat \<Rightarrow> nat \<Rightarrow> int" where
  "ba13 cfg ang13 r_comov1 r3 a b =
     astype_int (round_double
        (round_double ((r_comov1 ! b + r3 ! a) * sin (ang13 / 2) / cfWick_rt_max cfg)
         * real (cfWick_nt cfg)))
     + int (cfWick_nt cfg)
       * \<lfloor>round_double
           (round_double
              (round_double (\<bar>r_comov1 ! b - r3 ! a\<bar> * cos (ang13 / 2) - cfWick_rp_min cfg)
               / round_double (cfWick_rp_max cfg - cfWick_rp_min cfg))
            * real (cfWick_np cfg))\<rfloor>"

definition cf13_table ::
  "config \<Rightarrow> real list \<Rightarrow> real \<Rightarrow> real list \<Rightarrow> real list \<Rightarrow> error + real list list" where
  "cf13_table cfg cfW ang13 r_comov1 r3 =
     map_err (\<lambda>a. map_err (\<lambda>b.
         if w13 cfg ang13 r_comov1 r3 a b
         then get_at cfW (ba13 cfg ang13 r_comov1 r3 a b)
         else ebind (get_at cfW 0) (\<lambda>c. Inr 0))
       [0..<length r_comov1]) [0..<length r3]"

text \<open>The loops of \<^verbatim>\<open>fill_wickT56\<close> over the pairs of forest 1 and the pairs of forest 3.\<close>

definition wick5_inner ::
  "real list list \<Rightarrow> int list \<Rightarrow> real list \<Rightarrow> nat list \<Rightarrow> int list \<Rightarrow> int list \<Rightarrow> real list
     \<Rightarrow> nat list \<Rightarrow> int list \<Rightarrow> nat \<Rightarrow> nat \<Rightarrow> matrix \<Rightarrow> error + matrix" where
  "wick5_inner cf13 ba12 we12 pix12 thingid12 ba34 we34 pix34 thingid34 k1 k2 T =
     mat_add_sym T (ba12 ! k1) (ba34 ! k2)
       (cf13 ! (pix34 ! k2) ! (pix12 ! k1) * we12 ! k1 * we34 ! k2)"

definition wick5_loop ::
  "real list list \<Rightarrow> int list \<Rightarrow> real list \<Rightarrow> nat list \<Rightarrow> int list \<Rightarrow> int list \<Rightarrow> real list
     \<Rightarrow> nat list \<Rightarrow> int list \<Rightarrow> matrix \<Rightarrow> error + matrix" where
  "wick5_loop cf13 ba12 we12 pix12 thingid12 ba34 we34 pix34 thingid34 T =
     fold_err (\<lambda>k1.
         fold_err (wick5_inner cf13 ba12 we12 pix12 thingid12 ba34 we34 pix34 thingid34 k1)
           (filter (\<lambda>k2. thingid34 ! k2 = thingid12 ! k1) [0..<length ba34]))
       [0..<length ba12] T"

definition wick6_loop ::
  "real list list \<Rightarrow> int list \<Rightarrow> real list \<Rightarrow> nat list \<Rightarrow> int list \<Rightarrow> int list \<Rightarrow> real list
     \<Rightarrow> nat list \<Rightarrow> int list \<Rightarrow> matrix \<Rightarrow> error + matrix" where
  "wick6_loop cf13 ba12 we12 pix12 thingid12 ba34 we34 pix34 thingid34 T =
     fold_err (\<lambda>k1.
         fold_err (\<lambda>k2 T'.
             if thingid34 ! k2 = thingid12 ! k1 then Inr T'
             else wick5_inner cf13 ba12 we12 pix12 thingid12 ba34 we34 pix34 thingid34
                    k1 k2 T')
           [0..<length ba34])
       [0..<length ba12] T"

text \<open>
  \<^verbatim>\<open>fill_wickT56\<close>. It returns early when no pixel pair of the two forests lies in the window
  of the model, or when one of the forests has no pair in the correlation window. The
  model reports \<open>IndexError\<close> for a window of width zero with surviving pairs, whose bins are
  the casts of \<^verbatim>\<open>-inf\<close>.
\<close>

definition fill_wickT56 ::
  "config \<Rightarrow> real list \<Rightarrow> real list \<Rightarrow> real list \<Rightarrow> real \<Rightarrow> real list \<Rightarrow> real list
     \<Rightarrow> real list \<Rightarrow> real list \<Rightarrow> real list \<Rightarrow> real list \<Rightarrow> real list \<Rightarrow> real list
     \<Rightarrow> int list \<Rightarrow> int list \<Rightarrow> matrix \<times> matrix \<Rightarrow> error + (matrix \<times> matrix)" where
  "fill_wickT56 cfg cfW ang12 ang34 ang13 r_comov1 r_comov2 r3 r4 weights1 weights2 w3 w4
                thingid2 thingid4 = (\<lambda>(T5_0, T6_0).
     if \<not> (length weights1 = length r_comov1 \<and> length weights2 = length r_comov2
            \<and> length ang12 = length r_comov2 \<and> length thingid2 = length r_comov2
            \<and> length w3 = length r3 \<and> length w4 = length r4 \<and> length ang34 = length r4
            \<and> length thingid4 = length r4)
     then Inl ValueError
     else if nonzero2 (length r3) (length r_comov1) (w13 cfg ang13 r_comov1 r3) = []
     then Inr (T5_0, T6_0)
     else if cfWick_rt_max cfg = 0 then Inl IndexError
     else
       ebind (cf13_table cfg cfW ang13 r_comov1 r3) (\<lambda>cf13.
       let w12 = nonzero2 (length r_comov1) (length r_comov2)
                   (\<lambda>i j. window cfg (sep_par r_comov1 r_comov2 ang12 i j)
                                      (sep_trans r_comov1 r_comov2 ang12 i j))
       in if w12 = [] then Inr (T5_0, T6_0)
          else
       let we12 = masked w12 (\<lambda>i j. weights1 ! i * weights2 ! j);
           pix12 = map fst w12;
           thingid12 = masked w12 (\<lambda>i j. thingid2 ! j);
           ba12 = masked w12 (\<lambda>i j.
                    bin_trans cfg (num_bins_r_trans cfg) (sep_trans r_comov1 r_comov2 ang12 i j)
                    + int (num_bins_r_trans cfg)
                      * bin_par cfg (num_bins_r_par cfg) (sep_par r_comov1 r_comov2 ang12 i j));
           w34 = nonzero2 (length r3) (length r4)
                   (\<lambda>i j. window cfg (sep_par r3 r4 ang34 i j) (sep_trans r3 r4 ang34 i j))
       in if w34 = [] then Inr (T5_0, T6_0)
          else if r_trans_max cfg = 0 then Inl IndexError
          else
       let we34 = masked w34 (\<lambda>i j. w3 ! i * w4 ! j);
           pix34 = map fst w34;
           thingid34 = masked w34 (\<lambda>i j. thingid4 ! j);
           ba34 = masked w34 (\<lambda>i j.
                    bin_trans cfg (num_bins_r_trans cfg) (sep_trans r3 r4 ang34 i j)
                    + int (num_bins_r_trans cfg)
                      * bin_par cfg (num_bins_r_par cfg) (sep_par r3 r4 ang34 i j))
       in ebind (wick5_loop cf13 ba12 we12 pix12 thingid12 ba34 we34 pix34 thingid34 T5_0)
            (\<lambda>T5'.
          if max_diagram cfg = 5 then Inr (T5', T6_0)
          else
            ebind (wick6_loop cf13 ba12 we12 pix12 thingid12 ba34 we34 pix34 thingid34 T6_0)
              (\<lambda>T6'. Inr (T5', T6')))))"

section \<open>The driver \<^verbatim>\<open>wickT\<close>\<close>

record wick_run =
  wick :: wick_acc
  wick_num_pairs :: nat
  wick_num_pairs_used :: nat
  wick_rng_pos :: nat

text \<open>
  The body of the loop over the delta-neighbours \<open>d3\<close> of \<open>d1\<close>. The temporaries
  \<^verbatim>\<open>t_ang12\<close>, \<^verbatim>\<open>t_r2\<close>, \<^verbatim>\<open>t_w2\<close> and \<^verbatim>\<open>t_thingid2\<close> are assigned only in the branch
  \<^verbatim>\<open>max_diagram == 5\<close>; with any other budget the call of \<^verbatim>\<open>fill_wickT56\<close> reads them
  unassigned.
\<close>

definition wick_d3_step ::
  "config \<Rightarrow> real list \<Rightarrow> delta \<Rightarrow> object list \<Rightarrow> forest \<Rightarrow> matrix \<times> matrix
     \<Rightarrow> error + (matrix \<times> matrix)" where
  "wick_d3_step cfg cfW d1 nbs1 d3 TT =
     (case neighbours d3 of
        None \<Rightarrow> Inl AttributeError
      | Some nbs3 \<Rightarrow>
          if nbs3 = [] then Inr TT
          else if max_diagram cfg = 5 then
            let w = map (\<lambda>q. q \<in> set nbs3) nbs1
            in if count_true w = 0 then Inr TT
               else
                 ebind (select nbs1 w) (\<lambda>t_nbs1.
                 let w' = map (\<lambda>q. q \<in> set nbs1) nbs3
                 in if count_true w' = 0 then Inr TT
                    else
                      ebind (select nbs3 w') (\<lambda>t_nbs3.
                        fill_wickT56 cfg cfW
                          (map (angle d1) t_nbs1) (map (angle d3) t_nbs3) (angle d1 d3)
                          (d_r_comov d1) (map q_r_comov t_nbs1)
                          (d_r_comov d3) (map q_r_comov t_nbs3)
                          (d_weights d1) (map q_weights t_nbs1)
                          (d_weights d3) (map q_weights t_nbs3)
                          (map thingid t_nbs1) (map thingid t_nbs3) TT))
          else Inl UnboundLocalError)"

text \<open>
  The block "Higher order diagrams" of the loop over the retained deltas: nothing when the
  3-D model is absent or the budget is at most 4, else the loop over the delta-neighbours.
\<close>

definition wick_higher_order ::
  "config \<Rightarrow> delta \<Rightarrow> object list \<Rightarrow> wick_acc \<Rightarrow> error + wick_acc" where
  "wick_higher_order cfg d1 nbs1 a =
     (case cfWick cfg of
        None \<Rightarrow> Inr a
      | Some cfW \<Rightarrow>
          if max_diagram cfg \<le> 4 then Inr a
          else
            ebind (fold_err (wick_d3_step cfg cfW d1 nbs1) (dneighs d1) (T5 a, T6 a))
              (\<lambda>(T5', T6'). Inr (a\<lparr>T5 := T5', T6 := T6'\<rparr>)))"

text \<open>
  The body of the loop over the retained deltas \<open>d1\<close>: the diagrams \<open>T1\<close> to \<open>T4\<close>, then
  the higher-order block.
\<close>

definition wick_delta_step :: "config \<Rightarrow> delta \<Rightarrow> wick_acc \<Rightarrow> error + wick_acc" where
  "wick_delta_step cfg d1 a =
     (case neighbours d1 of
        None \<Rightarrow> Inl AttributeError
      | Some nbs1 \<Rightarrow>
          if nbs1 = [] then Inr a
          else
            case v1d cfg (fname d1) of None \<Rightarrow> Inl KeyError | Some v1f \<Rightarrow>
            case c1d cfg (fname d1) of None \<Rightarrow> Inl KeyError | Some c1f \<Rightarrow>
            let v1 = map v1f (d_log_lambda d1);
                weights1 = d_weights d1;
                log_lambda = d_log_lambda d1
            in if length weights1 \<noteq> length log_lambda then Inl ValueError
               else if \<exists>x \<in> set v1. \<exists>y \<in> set v1. x * y < 0 then Inl NonFinite
               else
                 let c1d_1 = (\<lambda>i j. (weights1 ! j * weights1 ! i)
                                      * c1f \<bar>log_lambda ! j - log_lambda ! i\<bar>
                                      * sqrt (v1 ! j * v1 ! i))
                 in ebind (fill_wickT1234 cfg (map (angle d1) nbs1) (d_r_comov d1)
                             (map q_r_comov nbs1) (d_z d1) (map z_qso nbs1) weights1
                             (map q_weights nbs1) c1d_1 a)
                      (wick_higher_order cfg d1 nbs1))"

text \<open>The body of the loop over the healpixes: the random choice of the deltas.\<close>

definition wick_healpix_step ::
  "config \<Rightarrow> (nat \<Rightarrow> real) \<Rightarrow> (nat \<rightharpoonup> delta list) \<Rightarrow> nat \<Rightarrow> wick_run \<Rightarrow> error + wick_run"
where
  "wick_healpix_step cfg rng data healpix st =
     (case data healpix of
        None \<Rightarrow> Inl KeyError
      | Some ds \<Rightarrow>
          let w = map (\<lambda>r. r > reject cfg) (rand rng (wick_rng_pos st) (length ds));
              st1 = st\<lparr>wick_num_pairs := wick_num_pairs st + length ds,
                       wick_rng_pos := wick_rng_pos st + length ds,
                       wick_num_pairs_used := wick_num_pairs_used st + count_true w\<rparr>
          in if count_true w = 0 then Inr st1
             else
               ebind (select ds w) (\<lambda>kept.
               ebind (fold_err (wick_delta_step cfg) kept (wick st1)) (\<lambda>a'.
                 Inr (st1\<lparr>wick := a'\<rparr>))))"

definition wick_acc0 :: "nat \<Rightarrow> wick_acc" where
  "wick_acc0 n = \<lparr>wAll = zeros n, num_pairs_wick = replicate n 0, T1 = zeros2 n,
                   T2 = zeros2 n, T3 = zeros2 n, T4 = zeros2 n, T5 = zeros2 n,
                   T6 = zeros2 n\<rparr>"

definition wickT ::
  "config \<Rightarrow> (nat \<Rightarrow> real) \<Rightarrow> nat list \<Rightarrow> (nat \<rightharpoonup> delta list) \<Rightarrow> error + wick_run" where
  "wickT cfg rng pix data =
     fold_err (wick_healpix_step cfg rng data) pix
       \<lparr>wick = wick_acc0 (num_bins_r_par cfg * num_bins_r_trans cfg), wick_num_pairs = 0,
        wick_num_pairs_used = 0, wick_rng_pos = 0\<rparr>"

section \<open>Shapes of the diagram matrices\<close>

text \<open>
  \<open>square n T\<close>: \<open>T\<close> has \<open>n\<close> rows of length \<open>n\<close>. \<open>sym_mat\<close> and \<open>diag_mat\<close> add that \<open>T\<close> equals
  its transpose, respectively that \<open>T\<close> is zero off the diagonal.
\<close>

definition square :: "nat \<Rightarrow> matrix \<Rightarrow> bool" where
  "square n T \<longleftrightarrow> length T = n \<and> (\<forall>r \<in> set T. length r = n)"

definition sym_mat :: "nat \<Rightarrow> matrix \<Rightarrow> bool" where
  "sym_mat n T \<longleftrightarrow> square n T \<and> (\<forall>i < n. \<forall>j < n. T ! i ! j = T ! j ! i)"

definition diag_mat :: "nat \<Rightarrow> matrix \<Rightarrow> bool" where
  "diag_mat n T \<longleftrightarrow> square n T \<and> (\<forall>i < n. \<forall>j < n. i \<noteq> j \<longrightarrow> T ! i ! j = 0)"

definition wick_shape :: "nat \<Rightarrow> wick_acc \<Rightarrow> bool" where
  "wick_shape n a \<longleftrightarrow> diag_mat n (T1 a) \<and> sym_mat n (T2 a) \<and> sym_mat n (T3 a)
     \<and> sym_mat n (T4 a) \<and> sym_mat n (T5 a) \<and> sym_mat n (T6 a)"

section \<open>The neighbour search \<^verbatim>\<open>fill_neighs\<close>\<close>

text \<open>
  The catalogue \<open>objs\<close> maps a healpix number to its objects. For one delta,
  \<^verbatim>\<open>fill_neighs\<close> collects the objects of the healpixes that \<^verbatim>\<open>query_disc\<close> returns and
  that the catalogue knows, drops the object of the delta itself, cuts on the angle and
  (outside angular mode) on the parallel separation to the first and the last pixel, cuts
  on the mean redshift to the last pixel, and assigns the result to \<open>neighbours\<close>. Reading
  the first pixel of a forest without pixels raises.
\<close>

definition fill_neighs_delta ::
  "config \<Rightarrow> (nat \<rightharpoonup> object list) \<Rightarrow> delta \<Rightarrow> error + delta" where
  "fill_neighs_delta cfg objs delta0 =
     (let healpix_neighbours =
            query_disc cfg (nside cfg) (x_cart delta0, y_cart delta0, z_cart delta0)
              (ang_max cfg);
          nbs = concat (map (\<lambda>other_healpix.
                   case objs other_healpix of
                     None \<Rightarrow> []
                   | Some os \<Rightarrow> filter (\<lambda>obj. thingid obj \<noteq> thingid delta0) os)
                 healpix_neighbours)
      in if \<not> ang_correlation cfg \<and> d_r_comov delta0 = [] then Inl IndexError
         else
           let w = (\<lambda>obj. angle delta0 obj < ang_max cfg
                     \<and> (ang_correlation cfg
                        \<or> (hd (d_r_comov delta0) - q_r_comov obj) * cos (angle delta0 obj / 2)
                             < r_par_max cfg
                          \<and> (last (d_r_comov delta0) - q_r_comov obj)
                              * cos (angle delta0 obj / 2) > r_par_min cfg));
               kept = filter w nbs
           in if kept \<noteq> [] \<and> d_z delta0 = [] then Inl IndexError
              else Inr (delta0\<lparr>neighbours := Some (filter (\<lambda>obj.
                     (last (d_z delta0) + z_qso obj) / 2 \<ge> z_cut_min cfg
                     \<and> (last (d_z delta0) + z_qso obj) / 2 < z_cut_max cfg) kept)\<rparr>))"

definition fill_neighs ::
  "config \<Rightarrow> (nat \<rightharpoonup> object list) \<Rightarrow> nat list \<Rightarrow> (nat \<rightharpoonup> delta list)
     \<Rightarrow> error + (nat \<rightharpoonup> delta list)" where
  "fill_neighs cfg objs healpixs data =
     ebind (sweep_healpixs
              (\<lambda>delta0 (u :: unit). ebind (fill_neighs_delta cfg objs delta0)
                                        (\<lambda>delta'. Inr (delta', u)))
              healpixs data ())
       (\<lambda>(data', u). Inr data')"

section \<open>The driver \<^verbatim>\<open>xcf1d\<close>\<close>

text \<open>
  \<^verbatim>\<open>xcf1d\<close> looks, for each delta, for the objects of its own healpix that carry its
  \<open>thingid\<close>, and goes on to the next delta when there is none. Otherwise it builds the
  lists of their redshifts, weights and wavelengths (which cannot raise) and calls a
  kernel under the name \<^verbatim>\<open>fast_xcf\<close>. No module of the sources defines that name and
  \<^verbatim>\<open>xcf.py\<close> does not import it, so the call raises \<^verbatim>\<open>NameError\<close> when the name is looked
  up, before any argument is evaluated. The statements that follow the call in the loop
  body, the update of the totals and the loop
  \<^verbatim>\<open>for el in list(d.__dict__.keys()): setattr(d,el,None)\<close>, are therefore never reached,
  and no delta is changed by \<^verbatim>\<open>xcf1d\<close>.
\<close>

record xcf1d_acc =
  x1_weights :: "real list"
  x1_xi :: "real list"
  x1_r_par :: "real list"
  x1_z :: "real list"
  x1_num_pairs :: "int list"

definition xcf1d_delta ::
  "(nat \<rightharpoonup> object list) \<Rightarrow> nat \<Rightarrow> delta \<Rightarrow> xcf1d_acc \<Rightarrow> error + (delta \<times> xcf1d_acc)" where
  "xcf1d_delta objs healpix d a =
     (case objs healpix of
        None \<Rightarrow> Inl KeyError
      | Some os \<Rightarrow>
          let nbs = filter (\<lambda>q. thingid q = thingid d) os
          in if nbs = [] then Inr (d, a) else Inl NameError)"

fun xcf1d_sweep ::
  "(nat \<rightharpoonup> object list) \<Rightarrow> nat list \<Rightarrow> (nat \<rightharpoonup> delta list) \<Rightarrow> xcf1d_acc
     \<Rightarrow> error + ((nat \<rightharpoonup> delta list) \<times> xcf1d_acc)" where
  "xcf1d_sweep objs [] data a = Inr (data, a)"
| "xcf1d_sweep objs (healpix # healpixs) data a =
     (case data healpix of
        None \<Rightarrow> Inl KeyError
      | Some ds \<Rightarrow>
          (case sweep (xcf1d_delta objs healpix) ds a of
             Inl e \<Rightarrow> Inl e
           | Inr (ds', a') \<Rightarrow> xcf1d_sweep objs healpixs (data(healpix \<mapsto> ds')) a'))"

text \<open>
  \<^verbatim>\<open>xcf1d\<close>: the totals start at zero, one entry per parallel bin, and are normalised at
  the end as in \<^verbatim>\<open>compute_xi\<close>. The model also returns the dictionary of deltas as the pass
  leaves it.
\<close>

definition xcf1d ::
  "config \<Rightarrow> nat list \<Rightarrow> (nat \<rightharpoonup> object list) \<Rightarrow> (nat \<rightharpoonup> delta list)
     \<Rightarrow> error + ((nat \<rightharpoonup> delta list) \<times> xcf1d_acc)" where
  "xcf1d cfg healpixs objs data =
     ebind (xcf1d_sweep objs healpixs data
              \<lparr>x1_weights = zeros (num_bins_r_par cfg), x1_xi = zeros (num_bins_r_par cfg),
               x1_r_par = zeros (num_bins_r_par cfg), x1_z = zeros (num_bins_r_par cfg),
               x1_num_pairs = replicate (num_bins_r_par cfg) 0\<rparr>)
       (\<lambda>(data', a).
          Inr (data', a\<lparr>x1_xi := normalise (x1_weights a) (x1_xi a),
                         x1_r_par := normalise (x1_weights a) (x1_r_par a),
                         x1_z := normalise (x1_weights a) (x1_z a)\<rparr>))"

section \<open>The passes as procedures on the entity dictionaries\<close>

text \<open>
  \<^verbatim>\<open>xcf.py\<close> keeps the entities in two module-level dictionaries, \<^verbatim>\<open>data\<close> (healpix to
  deltas) and \<^verbatim>\<open>objs\<close> (healpix to objects); every function above reads them and takes
  only the list of healpixes as its argument. The record \<open>globals\<close> holds the two
  dictionaries, and each pass is a procedure from their state before the call to their
  state after it. \<^verbatim>\<open>fill_neighs\<close> reads both and writes deltas; \<^verbatim>\<open>compute_xi\<close>,
  \<^verbatim>\<open>compute_dmat\<close> and \<^verbatim>\<open>compute_metal_dmat\<close> read and write deltas; \<^verbatim>\<open>wickT\<close> contains no
  assignment to an attribute of an entity; \<^verbatim>\<open>xcf1d\<close> reads both. No function contains an
  assignment to an attribute of an object or to an entry of \<^verbatim>\<open>objs\<close>.
\<close>

record globals =
  g_data :: "nat \<rightharpoonup> delta list"
  g_objs :: "nat \<rightharpoonup> object list"

definition fill_neighs_proc :: "config \<Rightarrow> nat list \<Rightarrow> globals \<Rightarrow> error + globals" where
  "fill_neighs_proc cfg healpixs g =
     ebind (fill_neighs cfg (g_objs g) healpixs (g_data g)) (\<lambda>data'. Inr (g\<lparr>g_data := data'\<rparr>))"

definition compute_xi_proc ::
  "config \<Rightarrow> nat list \<Rightarrow> globals \<Rightarrow> error + (globals \<times> xi_acc)" where
  "compute_xi_proc cfg healpixs g =
     ebind (compute_xi cfg healpixs (g_data g)) (\<lambda>(data', r). Inr (g\<lparr>g_data := data'\<rparr>, r))"

definition compute_dmat_proc ::
  "config \<Rightarrow> (nat \<Rightarrow> real) \<Rightarrow> nat list \<Rightarrow> globals \<Rightarrow> error + (globals \<times> dmat_run)" where
  "compute_dmat_proc cfg rng healpixs g =
     ebind (compute_dmat cfg rng healpixs (g_data g))
       (\<lambda>(data', r). Inr (g\<lparr>g_data := data'\<rparr>, r))"

definition compute_metal_dmat_proc ::
  "config \<Rightarrow> (nat \<Rightarrow> real) \<Rightarrow> nat list \<Rightarrow> string \<Rightarrow> globals \<Rightarrow> error + (globals \<times> dmat_run)"
where
  "compute_metal_dmat_proc cfg rng healpixs abs_igm g =
     ebind (compute_metal_dmat cfg rng healpixs abs_igm (g_data g))
       (\<lambda>(data', r). Inr (g\<lparr>g_data := data'\<rparr>, r))"

definition wickT_proc ::
  "config \<Rightarrow> (nat \<Rightarrow> real) \<Rightarrow> nat list \<Rightarrow> globals \<Rightarrow> error + (globals \<times> wick_run)" where
  "wickT_proc cfg rng pix g = ebind (wickT cfg rng pix (g_data g)) (\<lambda>r. Inr (g, r))"

definition xcf1d_proc ::
  "config \<Rightarrow> nat list \<Rightarrow> globals \<Rightarrow> error + (globals \<times> xcf1d_acc)" where
  "xcf1d_proc cfg healpixs g =
     ebind (xcf1d cfg healpixs (g_objs g) (g_data g))
       (\<lambda>(data', r). Inr (g\<lparr>g_data := data'\<rparr>, r))"

section \<open>What a pass may change in an entity\<close>

text \<open>
  \<open>same_but_neighbours d d'\<close>: the delta \<open>d'\<close> is \<open>d\<close> in every field other than \<open>neighbours\<close>.
  \<open>kept_or_cleared d d'\<close>: moreover the neighbour list of \<open>d'\<close> is that of \<open>d\<close> or has been
  cleared, so that no object in it is another than before.
\<close>

definition same_but_neighbours :: "delta \<Rightarrow> delta \<Rightarrow> bool" where
  "same_but_neighbours d d' \<longleftrightarrow> d' = d\<lparr>neighbours := neighbours d'\<rparr>"

definition kept_or_cleared :: "delta \<Rightarrow> delta \<Rightarrow> bool" where
  "kept_or_cleared d d' \<longleftrightarrow> d' = d \<or> d' = d\<lparr>neighbours := None\<rparr>"

section \<open>Example inputs\<close>

text \<open>
  A grid of two parallel bins and one transverse bin over the window \<open>0 < r_par < 4\<close>,
  \<open>r_trans < 1\<close>, with a model grid of the same shape; every neighbour is kept.
\<close>

definition cfg_ex :: config where
  "cfg_ex = \<lparr>num_bins_r_par = 2, num_bins_r_trans = 1, num_model_bins_r_par = 2,
     num_model_bins_r_trans = 1, r_par_max = 4, r_par_min = 0, r_trans_max = 1,
     z_cut_max = 10, z_cut_min = 0, ang_max = 1, z_ref = 2, z_evol_del = 1, z_evol_obj = 1,
     reject = 0, ang_correlation = False,
     absorber_igm = [''SiII(1526)'' \<mapsto> 1], alpha_abs = [''SiII(1526)'' \<mapsto> 1],
     get_r_comov = (\<lambda>z. z), get_dist_m = (\<lambda>z. z),
     v1d = [''a'' \<mapsto> (\<lambda>l. 1)], c1d = [''a'' \<mapsto> (\<lambda>l. 1)],
     max_diagram = 4, cfWick = None, cfWick_np = 1, cfWick_nt = 1,
     cfWick_rp_min = 0, cfWick_rp_max = 4, cfWick_rt_max = 1,
     nside = 1, query_disc = (\<lambda>n v a. [0])\<rparr>"

text \<open>
  One object at comoving distance \<open>0\<close> and one forest of two pixels at the same position on
  the sky (so that the angle between them is \<open>0\<close>), at comoving distances \<open>3/2\<close> and \<open>5/2\<close>
  and at log-wavelengths \<open>0\<close> and \<open>1\<close>, fitted with order \<open>0\<close>.
\<close>

definition obj_ex :: object where
  "obj_ex = \<lparr>thingid = 2, x_cart = 1, y_cart = 0, z_cart = 0, z_qso = 2,
     q_r_comov = 0, q_dist_m = 0, q_weights = 1, q_log_lambda = 0\<rparr>"

definition delta_ex :: delta where
  "delta_ex = \<lparr>thingid = 1, x_cart = 1, y_cart = 0, z_cart = 0, z_qso = 3,
     fname = ''a'', order = 0, d_z = [2, 2], d_r_comov = [3/2, 5/2], d_dist_m = [1, 1],
     d_log_lambda = [0, 1], d_weights = [1, 1], d_delta = [1, 3],
     neighbours = Some [obj_ex], dneighs = []\<rparr>"

text \<open>
  The same forest with the object listed twice as a neighbour, and a stream of draws whose
  first draw is exactly \<open>0\<close>.
\<close>

definition delta_two :: delta where
  "delta_two = delta_ex\<lparr>neighbours := Some [obj_ex, obj_ex]\<rparr>"

definition rng_zero_first :: "nat \<Rightarrow> real" where
  "rng_zero_first k = (if k = 0 then 0 else 1/2)"

text \<open>The example forest next to an object of weight 2.\<close>

definition obj_heavy :: object where
  "obj_heavy = obj_ex\<lparr>q_weights := 2\<rparr>"

definition delta_heavy :: delta where
  "delta_heavy = delta_ex\<lparr>neighbours := Some [obj_heavy]\<rparr>"

definition data_heavy :: "nat \<rightharpoonup> delta list" where
  "data_heavy = [0 \<mapsto> [delta_heavy]]"

text \<open>
  The store holding the example forest in healpix \<open>0\<close>, and the result of the Wick engine
  on it when every forest is retained.
\<close>

definition data_ex :: "nat \<rightharpoonup> delta list" where
  "data_ex = [0 \<mapsto> [delta_ex]]"

definition wick_run_ex :: wick_run where
  "wick_run_ex = \<lparr>wick = \<lparr>wAll = [1, 1], num_pairs_wick = [1, 1], T1 = [[1, 0], [0, 1]],
       T2 = [[0, 1], [1, 0]], T3 = [[0, 0], [0, 0]], T4 = [[0, 0], [0, 0]],
       T5 = [[0, 0], [0, 0]], T6 = [[0, 0], [0, 0]]\<rparr>,
     wick_num_pairs = 1, wick_num_pairs_used = 1, wick_rng_pos = 1\<rparr>"





text \<open>
  Inputs for \<^verbatim>\<open>xcf1d\<close> and \<^verbatim>\<open>fill_neighs\<close>: an object carrying the \<open>thingid\<close> of the
  example forest and a catalogue holding it, a catalogue holding the example object, the
  example forest before its neighbours are searched, the states of the two dictionaries
  built from them, and the totals of an \<^verbatim>\<open>xcf1d\<close> pass that bins nothing.
\<close>

definition obj_same :: object where
  "obj_same = obj_ex\<lparr>thingid := 1\<rparr>"

definition objs_same :: "nat \<rightharpoonup> object list" where
  "objs_same = [0 \<mapsto> [obj_same]]"

definition objs_cat :: "nat \<rightharpoonup> object list" where
  "objs_cat = [0 \<mapsto> [obj_ex]]"

definition data_bare :: "nat \<rightharpoonup> delta list" where
  "data_bare = [0 \<mapsto> [delta_ex\<lparr>neighbours := None\<rparr>]]"

definition data_cleared :: "nat \<rightharpoonup> delta list" where
  "data_cleared = [0 \<mapsto> [delta_heavy\<lparr>neighbours := None\<rparr>]]"

definition globals_bare :: globals where
  "globals_bare = \<lparr>g_data = data_bare, g_objs = objs_cat\<rparr>"

definition globals_ex :: globals where
  "globals_ex = \<lparr>g_data = data_ex, g_objs = objs_cat\<rparr>"

definition globals_heavy :: globals where
  "globals_heavy = \<lparr>g_data = data_heavy, g_objs = objs_cat\<rparr>"

definition globals_cleared :: globals where
  "globals_cleared = \<lparr>g_data = data_cleared, g_objs = objs_cat\<rparr>"

definition globals_same :: globals where
  "globals_same = \<lparr>g_data = data_ex, g_objs = objs_same\<rparr>"

definition xi_result_heavy :: xi_acc where
  "xi_result_heavy = \<lparr>acc_xi = [1, 3], acc_weights = [2, 2], acc_r_par = [3/2, 5/2],
     acc_r_trans = [0, 0], acc_z = [2, 2], acc_num_pairs = [1, 1]\<rparr>"

definition result_1d :: xcf1d_acc where
  "result_1d = \<lparr>x1_weights = [0, 0], x1_xi = [0, 0], x1_r_par = [0, 0], x1_z = [0, 0],
     x1_num_pairs = [0, 0]\<rparr>"

text \<open>
  A grid of two parallel bins over \<open>-4 < r_par < 4\<close>, and a forest of one pixel whose
  comoving distance is the 64-bit float just below 4, next to the example object at
  distance \<open>0\<close> in the same direction: the parallel separation of the pair is that float.
\<close>

definition cfg_edge :: config where
  "cfg_edge = cfg_ex\<lparr>r_par_min := - 4\<rparr>"

definition r_below :: real where
  "r_below = 4 - 1 / 2 ^ 51"

definition delta_edge :: delta where
  "delta_edge = \<lparr>thingid = 1, x_cart = 1, y_cart = 0, z_cart = 0, z_qso = 3,
     fname = ''a'', order = 0, d_z = [2], d_r_comov = [r_below], d_dist_m = [1],
     d_log_lambda = [0], d_weights = [1], d_delta = [1],
     neighbours = Some [obj_ex], dneighs = []\<rparr>"

definition data_edge :: "nat \<rightharpoonup> delta list" where
  "data_edge = [0 \<mapsto> [delta_edge]]"






section \<open>Rounding in the bin indices\<close>

lemma round_even_of_int [simp]: "round_even (of_int n) = n"
  by (simp add: round_even_def)

lemma round_even_half: "round_even (of_int n + 1/2) = (if even n then n else n + 1)"
proof -
  have "\<lfloor>of_int n + 1/2 :: real\<rfloor> = n" by (simp add: floor_eq_iff)
  then show ?thesis by (simp add: round_even_def Let_def)
qed

lemma floor_log2_eq:
  assumes "2 powr of_int e \<le> \<bar>x\<bar>" "\<bar>x\<bar> < 2 powr of_int (e + 1)"
  shows "\<lfloor>log 2 \<bar>x\<bar>\<rfloor> = e"
proof -
  have pos: "0 < \<bar>x\<bar>" using assms(1) by (smt (verit) powr_gt_zero)
  have "of_int e \<le> log 2 \<bar>x\<bar>" using assms(1) pos by (simp add: le_log_iff)
  moreover have "log 2 \<bar>x\<bar> < of_int (e + 1)" using assms(2) pos by (simp add: log_less_iff)
  ultimately show ?thesis by (simp add: floor_eq_iff)
qed

text \<open>A number in the binade of exponent \<open>e\<close> is rounded on the grid of step \<open>2 powr (e - 52)\<close>.\<close>

lemma round_double_eq:
  assumes "2 powr of_int e \<le> \<bar>x\<bar>" "\<bar>x\<bar> < 2 powr of_int (e + 1)"
  shows "round_double x
         = of_int (round_even (x / 2 powr of_int (e - 52))) * 2 powr of_int (e - 52)"
proof -
  have "x \<noteq> 0" using assms(1) by (smt (verit) powr_gt_zero)
  then show ?thesis by (simp add: round_double_def floor_log2_eq [OF assms] Let_def)
qed

text \<open>A number with a significand of at most 53 bits is a float: rounding leaves it.\<close>

lemma round_double_dyadic:
  assumes m: "\<bar>m\<bar> < 2 ^ 53"
  shows "round_double (of_int m * 2 powr of_int k) = of_int m * 2 powr of_int k"
proof (cases "m = 0")
  case True
  then show ?thesis by (simp add: round_double_def)
next
  case False
  let ?x = "of_int m * 2 powr of_int k :: real"
  have x0: "?x \<noteq> 0" using False by simp
  define e where "e = \<lfloor>log 2 \<bar>?x\<bar>\<rfloor>"
  have absx: "\<bar>?x\<bar> = of_int \<bar>m\<bar> * 2 powr of_int k" by (simp add: abs_mult)
  have "of_int \<bar>m\<bar> < (2 :: real) ^ 53" using m by (metis of_int_less_numeral_power_cancel_iff)
  then have "\<bar>?x\<bar> < 2 ^ 53 * 2 powr of_int k" unfolding absx by simp
  also have "\<dots> = 2 powr (53 + of_int k)" by (simp add: powr_add powr_realpow [symmetric])
  finally have "log 2 \<bar>?x\<bar> < 53 + of_int k" using x0 by (simp add: log_less_iff)
  then have "of_int e < (53 + of_int k :: real)" unfolding e_def by linarith
  then have ek: "e \<le> 52 + k" by linarith
  define j where "j = nat (52 + k - e)"
  have jk: "of_int k - of_int (e - 52) = (of_nat j :: real)" using ek by (simp add: j_def)
  have "?x / 2 powr of_int (e - 52) = of_int m * 2 powr (of_int k - of_int (e - 52))"
    by (simp add: powr_diff)
  also have "\<dots> = of_int m * 2 ^ j" unfolding jk by (simp add: powr_realpow)
  also have "\<dots> = of_int (m * 2 ^ j)" by simp
  finally have q: "?x / 2 powr of_int (e - 52) = of_int (m * 2 ^ j)" .
  have r: "round_even (?x / 2 powr of_int (e - 52)) = m * 2 ^ j"
    by (simp only: q round_even_of_int)
  have "round_double ?x = of_int (m * 2 ^ j) * 2 powr of_int (e - 52)"
    using x0 unfolding round_double_def Let_def e_def [symmetric] r by (simp only: if_False)
  also have "\<dots> = ?x" by (subst q [symmetric]) simp
  finally show ?thesis .
qed

lemma round_double_frac:
  "\<bar>m\<bar> < 2 ^ 53 \<Longrightarrow> round_double (of_int m / 2 ^ k) = of_int m / 2 ^ k"
  using round_double_dyadic [of m "- int k"]
  by (simp add: powr_minus powr_realpow divide_inverse)

text \<open>The floats met in the example runs.\<close>

lemma round_double_values:
  "round_double 0 = 0" "round_double 1 = 1" "round_double 2 = 2" "round_double 4 = 4"
  "round_double 8 = 8" "round_double (1 / 2) = 1 / 2" "round_double (3 / 2) = 3 / 2"
  "round_double (5 / 2) = 5 / 2" "round_double (3 / 4) = 3 / 4" "round_double (5 / 4) = 5 / 4"
  "round_double (3 / 8) = 3 / 8" "round_double (5 / 8) = 5 / 8"
  using round_double_frac [of 1 0] round_double_frac [of 2 0] round_double_frac [of 4 0]
    round_double_frac [of 8 0] round_double_frac [of 1 1] round_double_frac [of 3 1]
    round_double_frac [of 5 1] round_double_frac [of 3 2] round_double_frac [of 5 2]
    round_double_frac [of 3 3] round_double_frac [of 5 3]
  by (simp_all add: round_double_def)

section \<open>The selection window\<close>

lemma window_strict:
  "rp = r_par_min cfg \<or> rp = r_par_max cfg \<or> r_trans_max cfg \<le> rt \<Longrightarrow> \<not> window cfg rp rt"
  by (auto simp: window_def)

lemma set_pairs: "set (pairs n1 n2) = {(i, j). i < n1 \<and> j < n2}"
  by (auto simp: pairs_def)

lemma set_nonzero2: "set (nonzero2 n1 n2 w) = {(i, j). i < n1 \<and> j < n2 \<and> w i j}"
  by (auto simp: nonzero2_def set_pairs)

lemma xi_selected_window:
  "(i, j) \<in> set (xi_selected cfg r1 d1 r2 d2 ang) \<Longrightarrow>
     window cfg (xi_r_par cfg r1 r2 ang i j) (xi_r_trans cfg d1 d2 ang i j)"
  by (simp add: xi_selected_def set_nonzero2)

lemma dmat_selected_window:
  "(i, j) \<in> set (dmat_selected cfg r1 d1 r2 d2 ang) \<Longrightarrow>
     window cfg (sep_par r1 r2 ang i j) (sep_trans d1 d2 ang i j)"
  by (simp add: dmat_selected_def set_nonzero2)

section \<open>Sequencing lemmas and sums of rebinned arrays\<close>

lemma ebind_simps [simp]: "ebind (Inr x) f = f x" "ebind (Inl e) f = Inl e"
  by (simp_all add: ebind_def)

lemma ebind_eq_Inr: "ebind m f = Inr y \<longleftrightarrow> (\<exists>x. m = Inr x \<and> f x = Inr y)"
  by (cases m) simp_all

lemma le_fold_max: "(a::int) \<le> fold max bs a"
  by (induction bs arbitrary: a) (auto intro: order_trans [OF max.cobounded2])

lemma mem_le_fold_max: "b \<in> set bs \<Longrightarrow> (b::int) \<le> fold max bs a"
proof (induction bs arbitrary: a)
  case Nil
  then show ?case by simp
next
  case (Cons x xs)
  show ?case
  proof (cases "b = x")
    case True
    have "x \<le> max x a" by simp
    also have "\<dots> \<le> fold max xs (max x a)" by (rule le_fold_max)
    finally show ?thesis using True by simp
  next
    case False
    with Cons show ?thesis by simp
  qed
qed

lemma bin_lt_bincount_len:
  assumes "b \<in> set bins" "0 \<le> b"
  shows "nat b < bincount_len bins"
proof -
  have "b \<le> fold max bins 0" using assms(1) by (rule mem_le_fold_max)
  with assms show ?thesis by (auto simp: bincount_len_def)
qed

lemma sum_list_bin_sums:
  assumes "\<forall>p \<in> set ps. 0 \<le> fst p \<and> nat (fst p) < L"
  shows "sum_list (map (\<lambda>k. sum_list (map snd (filter (\<lambda>(b, w). b = int k) ps))) [0..<L])
         = sum_list (map snd (ps :: (int \<times> real) list))"
  using assms
proof (induction ps)
  case Nil
  then show ?case by simp
next
  case (Cons p ps)
  obtain b w where p: "p = (b, w)" by (cases p)
  from Cons.prems p have b: "0 \<le> b" "nat b < L" by auto
  have eq: "\<And>k. (b = int k) = (k = nat b)" using b by auto
  have one: "sum_list (map (\<lambda>k. if b = int k then w else 0) [0..<L]) = w"
    using b by (simp add: interv_sum_list_conv_sum_set_nat eq)
  have "sum_list (map (\<lambda>k. sum_list (map snd (filter (\<lambda>(b, w). b = int k) (p # ps)))) [0..<L])
        = sum_list (map (\<lambda>k. (if b = int k then w else 0)
                         + sum_list (map snd (filter (\<lambda>(b, w). b = int k) ps))) [0..<L])"
    by (rule arg_cong [where f = sum_list]) (simp add: p)
  also have "\<dots> = w + sum_list (map snd ps)"
    using Cons.IH Cons.prems one by (simp add: sum_list_addf)
  finally show ?case by (simp add: p)
qed

lemma sum_list_bincount:
  assumes "bincount bins ws = Inr r"
  shows "sum_list r = sum_list ws"
proof -
  from assms have len: "length bins = length ws" and nn: "\<forall>b \<in> set bins. 0 \<le> b"
    and r: "r = map (\<lambda>k. sum_list (map snd (filter (\<lambda>(b, w). b = int k) (zip bins ws))))
                    [0..<bincount_len bins]"
    by (auto simp: bincount_def bin_sum_def split: if_splits)
  have "\<forall>p \<in> set (zip bins ws). 0 \<le> fst p \<and> nat (fst p) < bincount_len bins"
    using nn by (auto dest!: set_zip_leftD intro: bin_lt_bincount_len)
  from sum_list_bin_sums [OF this] len show ?thesis by (simp add: r)
qed

lemma sum_list_map2_add:
  "length xs = length ys \<Longrightarrow> sum_list (map2 (+) xs ys) = sum_list xs + sum_list (ys :: real list)"
  by (induction xs ys rule: list_induct2) simp_all

lemma sum_list_add_prefix:
  assumes "add_prefix xs r = Inr xs'" "xs \<noteq> []"
  shows "sum_list xs' = sum_list xs + sum_list (r :: real list)"
proof -
  from assms have le: "length r \<le> length xs"
    and a: "xs' = map2 (+) (take (length r) xs) r @ drop (length r) xs"
    by (auto simp: add_prefix_def split: if_splits)
  have t: "sum_list (take (length r) xs) + sum_list (drop (length r) xs) = sum_list xs"
    by (metis append_take_drop_id sum_list_append)
  have "sum_list xs' = sum_list (take (length r) xs) + sum_list r + sum_list (drop (length r) xs)"
    using le by (simp add: a sum_list_map2_add)
  with t show ?thesis by simp
qed


section \<open>Evaluation on the example forest\<close>


lemma cfg_ex_simps:
  "num_bins_r_par cfg_ex = 2" "num_bins_r_trans cfg_ex = 1" "num_model_bins_r_par cfg_ex = 2"
  "num_model_bins_r_trans cfg_ex = 1" "r_par_max cfg_ex = 4" "r_par_min cfg_ex = 0"
  "r_trans_max cfg_ex = 1" "reject cfg_ex = 0" "ang_correlation cfg_ex = False"
  by (simp_all add: cfg_ex_def)

lemma bin_par_ex:
  "bin_par cfg_ex n x
     = astype_int (round_double (round_double (round_double x / 4) * real n))"
  by (simp add: bin_par_def cfg_ex_simps round_double_values)

lemma bin_trans_ex:
  "bin_trans cfg_ex n x = astype_int (round_double (round_double x * real n))"
  by (simp add: bin_trans_def cfg_ex_simps)

lemma bin_par_ex_values:
  "bin_par cfg_ex n (3 / 2) = astype_int (round_double (3 / 8 * real n))"
  "bin_par cfg_ex n (5 / 2) = astype_int (round_double (5 / 8 * real n))"
  by (simp_all add: bin_par_ex round_double_values)

lemma bin_trans_ex_zero: "bin_trans cfg_ex n 0 = 0"
  by (simp add: bin_trans_ex round_double_values astype_int_def)

lemma dmat_acc0_ex:
  "dmat_acc0 cfg_ex = \<lparr>weights_dmat = [0, 0], dmat = [0, 0, 0, 0], r_par_eff = [0, 0],
     r_trans_eff = [0, 0], z_eff = [0, 0], weight_eff = [0, 0]\<rparr>"
  by (simp add: dmat_acc0_def zeros_def cfg_ex_simps numeral_eq_Suc)

lemma dmat_selected_ex:
  "dmat_selected cfg_ex [3/2, 5/2] [1, 1] [0] [0] [0] = [(0, 0), (1, 0)]"
  by (simp add: dmat_selected_def nonzero2_def pairs_def window_def sep_par_def sep_trans_def
        cfg_ex_simps)

lemma angle_ex: "angle delta_ex obj_ex = 0"
  by (simp add: angle_def delta_ex_def obj_ex_def)

lemma compute_dmat_forest_pairs_ex:
  "compute_dmat_forest_pairs cfg_ex [0, 1] [3/2, 5/2] [1, 1] [2, 2] [1, 1] [0] [0] [2] [1] [0]
     (dmat_acc0 cfg_ex)
   = Inr \<lparr>weights_dmat = [1, 1], dmat = [0, 0, 0, 0], r_par_eff = [3/2, 5/2],
          r_trans_eff = [0, 0], z_eff = [2, 2], weight_eff = [1, 1]\<rparr>"
  by (simp add: compute_dmat_forest_pairs_def dmat_selected_ex Let_def masked_def cfg_ex_simps
        bin_par_ex bin_trans_ex round_double_values sep_par_def sep_trans_def astype_int_def bincount_def
        bincount_len_def bin_sum_def add_prefix_def dmat_acc0_ex numeral_eq_Suc dmat_pair_step_def
        add_at_def get_at_def norm_index_def)

lemma delta_ex_simps:
  "neighbours delta_ex = Some [obj_ex]" "d_log_lambda delta_ex = [0, 1]"
  "d_r_comov delta_ex = [3/2, 5/2]" "d_dist_m delta_ex = [1, 1]" "d_z delta_ex = [2, 2]"
  "d_weights delta_ex = [1, 1]" "d_delta delta_ex = [1, 3]" "order delta_ex = 0"
  by (simp_all add: delta_ex_def)

lemma obj_ex_simps:
  "q_r_comov obj_ex = 0" "q_dist_m obj_ex = 0" "q_weights obj_ex = 1" "z_qso obj_ex = 2"
  by (simp_all add: obj_ex_def)


section \<open>Sweeps and the counters of \<^verbatim>\<open>compute_dmat\<close>\<close>

lemma sweep_invariant:
  assumes step: "\<And>d s d' s'. f d s = Inr (d', s') \<Longrightarrow> P s \<Longrightarrow> P s'"
    and run: "sweep f ds s = Inr (ds', s')" and init: "P s"
  shows "P s'"
  using run init
proof (induction ds arbitrary: s ds')
  case Nil
  then show ?case by simp
next
  case (Cons d ds)
  from Cons.prems(1) obtain d1 s1 ds1 where
    f: "f d s = Inr (d1, s1)" and rest: "sweep f ds s1 = Inr (ds1, s')"
    by (auto split: sum.splits prod.splits)
  from step [OF f Cons.prems(2)] have "P s1" .
  from Cons.IH [OF rest this] show ?case .
qed

lemma sweep_healpixs_invariant:
  assumes step: "\<And>d s d' s'. f d s = Inr (d', s') \<Longrightarrow> P s \<Longrightarrow> P s'"
    and run: "sweep_healpixs f healpixs data s = Inr (data', s')" and init: "P s"
  shows "P s'"
  using run init
proof (induction healpixs arbitrary: data s)
  case Nil
  then show ?case by simp
next
  case (Cons h hs)
  from Cons.prems(1) obtain ds ds1 s1 where
    d: "data h = Some ds" and sw: "sweep f ds s = Inr (ds1, s1)"
    and rest: "sweep_healpixs f hs (data(h \<mapsto> ds1)) s1 = Inr (data', s')"
    by (auto split: option.splits sum.splits prod.splits)
  from sweep_invariant [of f P, OF step sw Cons.prems(2)] have "P s1" .
  from Cons.IH [OF rest this] show ?case .
qed

lemma count_true_all:
  "\<forall>r \<in> set rs. p r \<Longrightarrow> count_true (map p rs) = length rs"
  by (induction rs) (simp_all add: count_true_def)

lemma count_true_none:
  "\<forall>r \<in> set rs. \<not> p r \<Longrightarrow> count_true (map p rs) = 0"
  by (induction rs) (simp_all add: count_true_def)

lemma count_true_map: "count_true (map p rs) = length (filter p rs)"
  by (induction rs) (simp_all add: count_true_def)

lemma count_true_pos_iff: "count_true (map p rs) \<noteq> 0 \<longleftrightarrow> (\<exists>r \<in> set rs. p r)"
  by (simp add: count_true_map filter_empty_conv)

lemma length_rand [simp]: "length (rand rng pos n) = n"
  by (simp add: rand_def)

lemma set_rand: "set (rand rng pos n) = rng ` {pos..<pos + n}"
  by (simp add: rand_def)



text \<open>What one delta does to the counters.\<close>

lemma compute_dmat_delta_counters:
  assumes "compute_dmat_delta cfg rng d st = Inr (d', st')"
  obtains nbs where "neighbours d = Some nbs"
    and "rng_pos st' = rng_pos st + length nbs"
    and "count_true (map (\<lambda>r. r > reject cfg) (rand rng (rng_pos st) (length nbs))) = 0
         \<Longrightarrow> num_pairs st' = num_pairs st \<and> num_pairs_used st' = num_pairs_used st
             \<and> arrays st' = arrays st \<and> d' = d"
    and "count_true (map (\<lambda>r. r > reject cfg) (rand rng (rng_pos st) (length nbs))) \<noteq> 0
         \<Longrightarrow> num_pairs st' = num_pairs st + length nbs
             \<and> num_pairs_used st' = num_pairs_used st
                 + count_true (map (\<lambda>r. r > reject cfg) (rand rng (rng_pos st) (length nbs)))"
proof -
  from assms obtain nbs where n: "neighbours d = Some nbs"
    by (auto simp: compute_dmat_delta_def split: option.splits)
  show thesis
  proof (rule that [OF n])
    show "rng_pos st' = rng_pos st + length nbs"
      using assms n
      by (auto simp: compute_dmat_delta_def Let_def ebind_eq_Inr split: if_splits)
  next
    assume "count_true (map (\<lambda>r. r > reject cfg) (rand rng (rng_pos st) (length nbs))) = 0"
    then show "num_pairs st' = num_pairs st \<and> num_pairs_used st' = num_pairs_used st
             \<and> arrays st' = arrays st \<and> d' = d"
      using assms n by (auto simp: compute_dmat_delta_def Let_def)
  next
    assume "count_true (map (\<lambda>r. r > reject cfg) (rand rng (rng_pos st) (length nbs))) \<noteq> 0"
    then show "num_pairs st' = num_pairs st + length nbs
             \<and> num_pairs_used st' = num_pairs_used st
                 + count_true (map (\<lambda>r. r > reject cfg) (rand rng (rng_pos st) (length nbs)))"
      using assms n
      by (auto simp: compute_dmat_delta_def Let_def ebind_eq_Inr split: if_splits)
  qed
qed


lemma sweep_dmat_counts:
  assumes "sweep (compute_dmat_delta cfg rng) ds st = Inr (ds', st')"
  shows "num_pairs st' = num_pairs st + kept_delta_pairs cfg rng (rng_pos st) ds
         \<and> rng_pos st' = rng_pos st + total_neighbours ds"
  using assms
proof (induction ds arbitrary: st ds')
  case Nil
  then show ?case by simp
next
  case (Cons d ds)
  from Cons.prems obtain d1 s1 ds1 where
    f: "compute_dmat_delta cfg rng d st = Inr (d1, s1)"
    and rest: "sweep (compute_dmat_delta cfg rng) ds s1 = Inr (ds1, st')"
    by (auto split: sum.splits prod.splits)
  note ih = Cons.IH [OF rest]
  from f show ?case
  proof (rule compute_dmat_delta_counters)
    fix nbs
    assume n: "neighbours d = Some nbs"
      and pos: "rng_pos s1 = rng_pos st + length nbs"
      and none: "count_true (map (\<lambda>r. r > reject cfg) (rand rng (rng_pos st) (length nbs))) = 0
         \<Longrightarrow> num_pairs s1 = num_pairs st \<and> num_pairs_used s1 = num_pairs_used st
             \<and> arrays s1 = arrays st \<and> d1 = d"
      and some: "count_true (map (\<lambda>r. r > reject cfg) (rand rng (rng_pos st) (length nbs))) \<noteq> 0
         \<Longrightarrow> num_pairs s1 = num_pairs st + length nbs
             \<and> num_pairs_used s1 = num_pairs_used st
                 + count_true (map (\<lambda>r. r > reject cfg) (rand rng (rng_pos st) (length nbs)))"
    show ?thesis
    proof (cases "count_true (map (\<lambda>r. r > reject cfg) (rand rng (rng_pos st) (length nbs))) = 0")
      case True
      then have "\<not> (\<exists>r \<in> set (rand rng (rng_pos st) (length nbs)). r > reject cfg)"
        using count_true_pos_iff [of "\<lambda>r. r > reject cfg"] by blast
      with none [OF True] ih pos n show ?thesis by simp
    next
      case False
      then have "\<exists>r \<in> set (rand rng (rng_pos st) (length nbs)). r > reject cfg"
        using count_true_pos_iff [of "\<lambda>r. r > reject cfg"] by blast
      with some [OF False] ih pos n show ?thesis by simp
    qed
  qed
qed

lemma total_neighbours_append:
  "total_neighbours (xs @ ys) = total_neighbours xs + total_neighbours ys"
  by (induction xs) simp_all

lemma kept_delta_pairs_append:
  "kept_delta_pairs cfg rng pos (xs @ ys)
   = kept_delta_pairs cfg rng pos xs
     + kept_delta_pairs cfg rng (pos + total_neighbours xs) ys"
  by (induction xs arbitrary: pos) (simp_all add: add.assoc split: option.splits)

lemma kept_delta_pairs_le: "kept_delta_pairs cfg rng pos ds \<le> total_neighbours ds"
proof (induction ds arbitrary: pos)
  case Nil
  then show ?case by simp
next
  case (Cons d ds)
  show ?case
  proof (cases "neighbours d")
    case None
    with Cons.IH [of pos] show ?thesis by simp
  next
    case (Some nbs)
    with Cons.IH [of "pos + length nbs"] show ?thesis by simp
  qed
qed

lemma sweep_healpixs_dmat_counts:
  assumes "sweep_healpixs (compute_dmat_delta cfg rng) healpixs data st = Inr (data', st')"
    and "distinct healpixs"
  shows "num_pairs st' = num_pairs st
           + kept_delta_pairs cfg rng (rng_pos st) (concat (map (\<lambda>h. the (data h)) healpixs))"
  using assms
proof (induction healpixs arbitrary: data st)
  case Nil
  then show ?case by simp
next
  case (Cons h hs)
  from Cons.prems(1) obtain ds ds1 s1 where
    d: "data h = Some ds" and sw: "sweep (compute_dmat_delta cfg rng) ds st = Inr (ds1, s1)"
    and rest: "sweep_healpixs (compute_dmat_delta cfg rng) hs (data(h \<mapsto> ds1)) s1 = Inr (data', st')"
    by (auto split: option.splits sum.splits prod.splits)
  from Cons.prems(2) have nin: "h \<notin> set hs" and dist: "distinct hs" by simp_all
  have same: "map (\<lambda>h'. the ((data(h \<mapsto> ds1)) h')) hs = map (\<lambda>h'. the (data h')) hs"
    using nin by (intro map_cong) auto
  have "num_pairs st' = num_pairs s1
          + kept_delta_pairs cfg rng (rng_pos s1) (concat (map (\<lambda>h. the (data h)) hs))"
    using Cons.IH [OF rest dist] unfolding same .
  with sweep_dmat_counts [OF sw] d show ?case
    by (simp add: kept_delta_pairs_append)
qed



lemma compute_dmat_ex_run:
  "compute_dmat cfg_ex (\<lambda>k. 1/2) [0] [0 \<mapsto> [delta_ex]]
     = Inr ([0 \<mapsto> [delta_ex\<lparr>neighbours := None\<rparr>]],
            \<lparr>arrays = \<lparr>weights_dmat = [1, 1], dmat = [0, 0, 0, 0], r_par_eff = [3/2, 5/2],
                    r_trans_eff = [0, 0], z_eff = [2, 2], weight_eff = [1, 1]\<rparr>,
             num_pairs = 1, num_pairs_used = 1, rng_pos = 1\<rparr>)"
  by (simp add: compute_dmat_def compute_dmat_delta_def delta_ex_simps obj_ex_simps
        cfg_ex_simps rand_def count_true_def select_def angle_ex
        compute_dmat_forest_pairs_ex Let_def)

lemma compute_dmat_skip_run:
  "r \<ge> 1/2 \<Longrightarrow> compute_dmat (cfg_ex\<lparr>reject := r\<rparr>) (\<lambda>k. 1/4) [0] [0 \<mapsto> [delta_ex]]
     = Inr ([0 \<mapsto> [delta_ex]],
            \<lparr>arrays = dmat_acc0 (cfg_ex\<lparr>reject := r\<rparr>), num_pairs = 0, num_pairs_used = 0,
             rng_pos = 1\<rparr>)"
  by (simp add: compute_dmat_def compute_dmat_delta_def delta_ex_simps rand_def
        count_true_def Let_def)

lemma delta_two_simps:
  "neighbours delta_two = Some [obj_ex, obj_ex]" "d_log_lambda delta_two = [0, 1]"
  "d_r_comov delta_two = [3/2, 5/2]" "d_dist_m delta_two = [1, 1]" "d_z delta_two = [2, 2]"
  "d_weights delta_two = [1, 1]"
  by (simp_all add: delta_two_def delta_ex_def)

lemma angle_two: "angle delta_two obj_ex = 0"
  by (simp add: angle_def delta_two_def delta_ex_def obj_ex_def)

lemma compute_dmat_skip_first_run:
  "compute_dmat cfg_ex rng_zero_first [0] [0 \<mapsto> [delta_ex, delta_ex]]
     = Inr ([0 \<mapsto> [delta_ex, delta_ex\<lparr>neighbours := None\<rparr>]],
            \<lparr>arrays = \<lparr>weights_dmat = [1, 1], dmat = [0, 0, 0, 0], r_par_eff = [3/2, 5/2],
                    r_trans_eff = [0, 0], z_eff = [2, 2], weight_eff = [1, 1]\<rparr>,
             num_pairs = 1, num_pairs_used = 1, rng_pos = 2\<rparr>)"
  by (simp add: compute_dmat_def compute_dmat_delta_def delta_ex_simps obj_ex_simps
        cfg_ex_simps rand_def count_true_def select_def angle_ex rng_zero_first_def
        compute_dmat_forest_pairs_ex Let_def)


section \<open>The linear term of the distortion matrix\<close>

text \<open>
  Claim C2. The claim says that the linear-term correction (\<open>eta4\<close>) enters the distortion
  matrix only for a forest of fit order 1. \<^verbatim>\<open>compute_dmat_forest_pairs\<close> has no parameter for
  the order and adds the term for every forest. On the example forest, of order \<open>0\<close>, the
  identity term and the mean-subtraction term alone would leave
  \<open>[1/2, - 1/2, - 1/2, 1/2]\<close> in \<open>dmat\<close>; the run returns \<open>[0, 0, 0, 0]\<close>, the value with the
  linear term.
\<close>

theorem dmat_linear_term_order0:
  "order delta_ex = 0
   \<and> compute_dmat cfg_ex (\<lambda>k. 1/2) [0] [0 \<mapsto> [delta_ex]]
     = Inr ([0 \<mapsto> [delta_ex\<lparr>neighbours := None\<rparr>]],
            \<lparr>arrays = \<lparr>weights_dmat = [1, 1], dmat = [0, 0, 0, 0], r_par_eff = [3/2, 5/2],
                    r_trans_eff = [0, 0], z_eff = [2, 2], weight_eff = [1, 1]\<rparr>,
             num_pairs = 1, num_pairs_used = 1, rng_pos = 1\<rparr>)"
  using compute_dmat_ex_run by (simp add: delta_ex_simps)

section \<open>Conservation of the pair weight between the two grids\<close>

text \<open>
  Claim C7. Whenever \<^verbatim>\<open>compute_dmat_forest_pairs\<close> returns, the total weight it adds to
  \<open>weights_dmat\<close> over the data bins equals the total weight it adds to \<open>weight_eff\<close> over the
  model bins. Both grids use the same selection window, so no pair is removed by the model
  grid alone; the two accumulators are assumed to be non-empty arrays.
\<close>

theorem dmat_weight_conservation:
  assumes run: "compute_dmat_forest_pairs cfg log_lambda1 r_comov1 dist_m1 z1 weights1
                  r_comov2 dist_m2 z2 weights2 ang a = Inr a'"
    and ne: "weights_dmat a \<noteq> []" "weight_eff a \<noteq> []"
  shows "sum_list (weights_dmat a') - sum_list (weights_dmat a)
         = sum_list (weight_eff a') - sum_list (weight_eff a)"
proof -
  from run obtain bins model_bins weights12 rb1 rb2 where
    b1: "bincount model_bins weights12 = Inr rb1" and
    p1: "add_prefix (weight_eff a) rb1 = Inr (weight_eff a')" and
    b2: "bincount bins weights12 = Inr rb2" and
    p2: "add_prefix (weights_dmat a) rb2 = Inr (weights_dmat a')"
    unfolding compute_dmat_forest_pairs_def Let_def
    by (auto simp: ebind_eq_Inr split: if_splits)
  show ?thesis
    using sum_list_bincount [OF b1] sum_list_bincount [OF b2]
      sum_list_add_prefix [OF p1 ne(2)] sum_list_add_prefix [OF p2 ne(1)]
    by simp
qed

theorem dmat_weight_conservation_witness:
  "compute_dmat_forest_pairs cfg_ex [0, 1] [3/2, 5/2] [1, 1] [2, 2] [1, 1] [0] [0] [2] [1] [0]
     (dmat_acc0 cfg_ex)
   = Inr \<lparr>weights_dmat = [1, 1], dmat = [0, 0, 0, 0], r_par_eff = [3/2, 5/2],
          r_trans_eff = [0, 0], z_eff = [2, 2], weight_eff = [1, 1]\<rparr>
   \<and> weights_dmat (dmat_acc0 cfg_ex) \<noteq> [] \<and> weight_eff (dmat_acc0 cfg_ex) \<noteq> []
   \<and> sum_list [1, 1 :: real] - sum_list (weights_dmat (dmat_acc0 cfg_ex))
     = sum_list [1, 1 :: real] - sum_list (weight_eff (dmat_acc0 cfg_ex))"
proof -
  have ne: "weights_dmat (dmat_acc0 cfg_ex) \<noteq> []" "weight_eff (dmat_acc0 cfg_ex) \<noteq> []"
    by (simp_all add: dmat_acc0_ex)
  from dmat_weight_conservation [OF compute_dmat_forest_pairs_ex ne] ne
    compute_dmat_forest_pairs_ex
  show ?thesis by simp
qed

section \<open>The reject-probability law\<close>

text \<open>
  Claim C4, as stated, fails for \<open>reject = 0\<close>: a neighbour is kept when its draw is strictly
  greater than \<open>reject\<close>, and \<^verbatim>\<open>np.random.rand\<close> draws from \<open>[0, 1)\<close>, so a draw of exactly
  \<open>0\<close> rejects its neighbour. With the draws \<open>0, 1/2\<close> for the two neighbours of one delta,
  \<open>num_pairs\<close> is 2 and \<open>num_pairs_used\<close> is 1.
\<close>

theorem reject_zero_counterexample:
  "reject cfg_ex = 0
   \<and> compute_dmat cfg_ex rng_zero_first [0] [0 \<mapsto> [delta_two]]
     = Inr ([0 \<mapsto> [delta_two\<lparr>neighbours := None\<rparr>]],
            \<lparr>arrays = \<lparr>weights_dmat = [1, 1], dmat = [0, 0, 0, 0], r_par_eff = [3/2, 5/2],
                    r_trans_eff = [0, 0], z_eff = [2, 2], weight_eff = [1, 1]\<rparr>,
             num_pairs = 2, num_pairs_used = 1, rng_pos = 2\<rparr>)"
  by (simp add: compute_dmat_def compute_dmat_delta_def delta_two_simps obj_ex_simps
        cfg_ex_simps rand_def count_true_def select_def angle_two rng_zero_first_def
        compute_dmat_forest_pairs_ex Let_def upt_rec)


text \<open>
  Claim C4, amended. For a run of \<^verbatim>\<open>compute_dmat\<close> that returns: when \<open>reject = 0\<close> and no
  draw is exactly \<open>0\<close>, \<open>num_pairs_used\<close> equals \<open>num_pairs\<close>; when \<open>reject = 1\<close> (the draws
  being below 1), \<open>num_pairs_used\<close> is 0 and every accumulator array is returned as it was
  allocated, all zero.
\<close>

theorem reject_law:
  assumes run: "compute_dmat cfg rng healpixs data = Inr (data', st)"
  shows "(reject cfg = 0 \<and> (\<forall>k. 0 < rng k) \<longrightarrow> num_pairs_used st = num_pairs st)
       \<and> (reject cfg = 1 \<and> (\<forall>k. rng k < 1) \<longrightarrow>
            num_pairs_used st = 0 \<and> arrays st = dmat_acc0 cfg)"
proof (intro conjI impI)
  assume h: "reject cfg = 0 \<and> (\<forall>k. 0 < rng k)"
  have step: "\<And>d s d' s'. compute_dmat_delta cfg rng d s = Inr (d', s')
                \<Longrightarrow> num_pairs_used s = num_pairs s \<Longrightarrow> num_pairs_used s' = num_pairs s'"
  proof -
    fix d s d' s'
    assume f: "compute_dmat_delta cfg rng d s = Inr (d', s')"
      and eq: "num_pairs_used s = num_pairs s"
    from f show "num_pairs_used s' = num_pairs s'"
    proof (rule compute_dmat_delta_counters)
      fix nbs
      let ?w = "map (\<lambda>r. r > reject cfg) (rand rng (rng_pos s) (length nbs))"
      assume none: "count_true ?w = 0 \<Longrightarrow> num_pairs s' = num_pairs s
                      \<and> num_pairs_used s' = num_pairs_used s \<and> arrays s' = arrays s \<and> d' = d"
        and some: "count_true ?w \<noteq> 0 \<Longrightarrow> num_pairs s' = num_pairs s + length nbs
                      \<and> num_pairs_used s' = num_pairs_used s + count_true ?w"
      have "\<forall>r \<in> set (rand rng (rng_pos s) (length nbs)). r > reject cfg"
        using h by (auto simp: set_rand)
      then have all: "count_true ?w = length nbs"
        using count_true_all [of _ "\<lambda>r. r > reject cfg"] by simp
      show ?thesis
      proof (cases "count_true ?w = 0")
        case True
        with none eq show ?thesis by simp
      next
        case False
        with some all eq show ?thesis by simp
      qed
    qed
  qed
  from run show "num_pairs_used st = num_pairs st"
    unfolding compute_dmat_def
    by (rule sweep_healpixs_invariant [where P = "\<lambda>s. num_pairs_used s = num_pairs s",
          rotated]) (simp_all add: step)
next
  assume h: "reject cfg = 1 \<and> (\<forall>k. rng k < 1)"
  let ?P = "\<lambda>s. num_pairs_used s = 0 \<and> arrays s = dmat_acc0 cfg"
  have step: "\<And>d s d' s'. compute_dmat_delta cfg rng d s = Inr (d', s') \<Longrightarrow> ?P s \<Longrightarrow> ?P s'"
  proof -
    fix d s d' s'
    assume f: "compute_dmat_delta cfg rng d s = Inr (d', s')" and p: "?P s"
    from f show "?P s'"
    proof (rule compute_dmat_delta_counters)
      fix nbs
      let ?w = "map (\<lambda>r. r > reject cfg) (rand rng (rng_pos s) (length nbs))"
      assume none: "count_true ?w = 0 \<Longrightarrow> num_pairs s' = num_pairs s
                      \<and> num_pairs_used s' = num_pairs_used s \<and> arrays s' = arrays s \<and> d' = d"
      have "\<forall>r \<in> set (rand rng (rng_pos s) (length nbs)). \<not> r > reject cfg"
        using h by (auto simp: set_rand not_less intro: less_imp_le)
      then have "count_true ?w = 0"
        using count_true_none [of _ "\<lambda>r. r > reject cfg"] by simp
      with none p show ?thesis by simp
    qed
  qed
  from run have "?P st"
    unfolding compute_dmat_def
    by (rule sweep_healpixs_invariant [where P = ?P, rotated]) (simp_all add: step)
  then show "num_pairs_used st = 0" and "arrays st = dmat_acc0 cfg" by simp_all
qed


theorem reject_law_witness:
  "compute_dmat cfg_ex (\<lambda>k. 1/2) [0] [0 \<mapsto> [delta_ex]]
     = Inr ([0 \<mapsto> [delta_ex\<lparr>neighbours := None\<rparr>]],
            \<lparr>arrays = \<lparr>weights_dmat = [1, 1], dmat = [0, 0, 0, 0], r_par_eff = [3/2, 5/2],
                    r_trans_eff = [0, 0], z_eff = [2, 2], weight_eff = [1, 1]\<rparr>,
             num_pairs = 1, num_pairs_used = 1, rng_pos = 1\<rparr>)
   \<and> reject cfg_ex = 0 \<and> (\<forall>k. 0 < (\<lambda>k. 1/2 :: real) k)
   \<and> compute_dmat (cfg_ex\<lparr>reject := 1\<rparr>) (\<lambda>k. 1/4) [0] [0 \<mapsto> [delta_ex]]
     = Inr ([0 \<mapsto> [delta_ex]],
            \<lparr>arrays = dmat_acc0 (cfg_ex\<lparr>reject := 1\<rparr>), num_pairs = 0, num_pairs_used = 0,
             rng_pos = 1\<rparr>)
   \<and> reject (cfg_ex\<lparr>reject := 1\<rparr>) = 1 \<and> (\<forall>k. (\<lambda>k. 1/4 :: real) k < 1)
   \<and> num_pairs_used \<lparr>arrays = dmat_acc0 (cfg_ex\<lparr>reject := 1\<rparr>), num_pairs = 0,
                      num_pairs_used = 0, rng_pos = 1\<rparr> = 0"
proof -
  have r1: "compute_dmat (cfg_ex\<lparr>reject := 1\<rparr>) (\<lambda>k. 1/4) [0] [0 \<mapsto> [delta_ex]]
     = Inr ([0 \<mapsto> [delta_ex]],
            \<lparr>arrays = dmat_acc0 (cfg_ex\<lparr>reject := 1\<rparr>), num_pairs = 0, num_pairs_used = 0,
             rng_pos = 1\<rparr>)"
    by (rule compute_dmat_skip_run) simp
  from reject_law [OF compute_dmat_ex_run] reject_law [OF r1] compute_dmat_ex_run r1
  show ?thesis by (simp add: cfg_ex_simps)
qed


section \<open>Which pairs \<open>num_pairs\<close> counts\<close>

text \<open>
  Claim C10. In \<^verbatim>\<open>compute_dmat\<close> a delta all of whose neighbours are rejected is skipped
  before its neighbour count is added to \<open>num_pairs\<close>: for a run over distinct healpixes
  the returned \<open>num_pairs\<close> is the number of neighbours of the deltas that kept at least one
  neighbour, which is at most the number of delta-neighbour pairs of the input, and for a
  \<open>reject\<close> strictly between 0 and 1 there is a run where it is strictly less.
\<close>

theorem num_pairs_counts_kept_deltas:
  assumes run: "compute_dmat cfg rng healpixs data = Inr (data', st)"
    and dist: "distinct healpixs"
  shows "num_pairs st
           = kept_delta_pairs cfg rng 0 (concat (map (\<lambda>h. the (data h)) healpixs))
       \<and> num_pairs st \<le> total_neighbours (concat (map (\<lambda>h. the (data h)) healpixs))
       \<and> (\<exists>c r hs m m' s. 0 < reject c \<and> reject c < 1 \<and> distinct hs
             \<and> compute_dmat c r hs m = Inr (m', s)
             \<and> num_pairs s < total_neighbours (concat (map (\<lambda>h. the (m h)) hs)))"
proof (intro conjI)
  from sweep_healpixs_dmat_counts [OF run [unfolded compute_dmat_def] dist]
  show eq: "num_pairs st
           = kept_delta_pairs cfg rng 0 (concat (map (\<lambda>h. the (data h)) healpixs))"
    by simp
  show "num_pairs st \<le> total_neighbours (concat (map (\<lambda>h. the (data h)) healpixs))"
    unfolding eq by (rule kept_delta_pairs_le)
  have half: "compute_dmat (cfg_ex\<lparr>reject := 1/2\<rparr>) (\<lambda>k. 1/4) [0] [0 \<mapsto> [delta_ex]]
     = Inr ([0 \<mapsto> [delta_ex]],
            \<lparr>arrays = dmat_acc0 (cfg_ex\<lparr>reject := 1/2\<rparr>), num_pairs = 0,
             num_pairs_used = 0, rng_pos = 1\<rparr>)"
    by (rule compute_dmat_skip_run) simp
  show "\<exists>c r hs m m' s. 0 < reject c \<and> reject c < 1 \<and> distinct hs
             \<and> compute_dmat c r hs m = Inr (m', s)
             \<and> num_pairs s < total_neighbours (concat (map (\<lambda>h. the (m h)) hs))"
    apply (rule exI [of _ "cfg_ex\<lparr>reject := 1/2\<rparr>"])
    apply (rule exI [of _ "\<lambda>k. 1/4"])
    apply (rule exI [of _ "[0]"])
    apply (rule exI [of _ "[0 \<mapsto> [delta_ex]]"])
    apply (rule exI [of _ "[0 \<mapsto> [delta_ex]]"])
    apply (rule exI [of _ "\<lparr>arrays = dmat_acc0 (cfg_ex\<lparr>reject := 1/2\<rparr>), num_pairs = 0,
             num_pairs_used = 0, rng_pos = 1\<rparr>"])
    apply (simp add: half delta_ex_simps)
    done
qed


theorem num_pairs_counts_kept_deltas_witness:
  "compute_dmat cfg_ex rng_zero_first [0] [0 \<mapsto> [delta_ex, delta_ex]]
     = Inr ([0 \<mapsto> [delta_ex, delta_ex\<lparr>neighbours := None\<rparr>]],
            \<lparr>arrays = \<lparr>weights_dmat = [1, 1], dmat = [0, 0, 0, 0], r_par_eff = [3/2, 5/2],
                    r_trans_eff = [0, 0], z_eff = [2, 2], weight_eff = [1, 1]\<rparr>,
             num_pairs = 1, num_pairs_used = 1, rng_pos = 2\<rparr>)
   \<and> distinct [0 :: nat]
   \<and> kept_delta_pairs cfg_ex rng_zero_first 0
       (concat (map (\<lambda>h. the ([0 \<mapsto> [delta_ex, delta_ex]] h)) [0 :: nat])) = 1
   \<and> total_neighbours (concat (map (\<lambda>h. the ([0 \<mapsto> [delta_ex, delta_ex]] h)) [0 :: nat])) = 2"
proof -
  have d: "distinct [0 :: nat]" by simp
  from num_pairs_counts_kept_deltas [OF compute_dmat_skip_first_run d]
    compute_dmat_skip_first_run
  show ?thesis by (simp add: delta_ex_simps)
qed

section \<open>Normalisation by the weight sum\<close>








lemma length_masked [simp]: "length (masked sel f) = length sel"
  by (simp add: masked_def)


























lemma delta_heavy_simps:
  "neighbours delta_heavy = Some [obj_heavy]" "d_log_lambda delta_heavy = [0, 1]"
  "d_r_comov delta_heavy = [3/2, 5/2]" "d_dist_m delta_heavy = [1, 1]"
  "d_z delta_heavy = [2, 2]" "d_weights delta_heavy = [1, 1]" "d_delta delta_heavy = [1, 3]"
  by (simp_all add: delta_heavy_def delta_ex_def)

lemma obj_heavy_simps:
  "q_r_comov obj_heavy = 0" "q_dist_m obj_heavy = 0" "q_weights obj_heavy = 2"
  "z_qso obj_heavy = 2"
  by (simp_all add: obj_heavy_def obj_ex_def)

lemma angle_heavy: "angle delta_heavy obj_heavy = 0"
  by (simp add: angle_def delta_heavy_def delta_ex_def obj_heavy_def obj_ex_def)

lemma xi_selected_heavy:
  "xi_selected cfg_ex [3/2, 5/2] [1, 1] [0] [0] [0] = [(0, 0), (1, 0)]"
  by (simp add: xi_selected_def nonzero2_def pairs_def window_def xi_r_par_def
        xi_r_trans_def cfg_ex_simps)

lemma compute_xi_forest_pairs_heavy:
  "compute_xi_forest_pairs cfg_ex [2, 2] [3/2, 5/2] [1, 1] [1, 1] [1, 3] [2] [0] [0] [2] [0]
   = Inr ([2, 2], [2, 6], [3, 5], [0, 0], [4, 4], [1, 1])"
  by (simp add: compute_xi_forest_pairs_def xi_selected_heavy Let_def masked_def cfg_ex_simps
        bin_par_ex bin_trans_ex round_double_values xi_r_par_def xi_r_trans_def astype_int_def bincount_def
        bincount_len_def bin_sum_def numeral_eq_Suc)

lemma compute_xi_sums_heavy:
  "compute_xi_sums cfg_ex [0] data_heavy
   = Inr ([0 \<mapsto> [delta_heavy\<lparr>neighbours := None\<rparr>]],
          \<lparr>acc_xi = [2, 6], acc_weights = [2, 2], acc_r_par = [3, 5], acc_r_trans = [0, 0],
           acc_z = [4, 4], acc_num_pairs = [1, 1]\<rparr>)"
  by (simp add: compute_xi_sums_def compute_xi_delta_def delta_heavy_simps obj_heavy_simps
        cfg_ex_simps angle_heavy compute_xi_forest_pairs_heavy xi_accumulate_def xi_acc0_def
        zeros_def add_prefix_def astype_int_def Let_def numeral_eq_Suc data_heavy_def)



section \<open>The bin index at the upper edge of the window\<close>

lemma r_below_float: "round_double r_below = r_below"
proof -
  have eq: "r_below = of_int (2 ^ 53 - 1) / 2 ^ 51" by (simp add: r_below_def)
  show ?thesis unfolding eq by (rule round_double_frac) simp
qed

lemma round_double_r_below_shifted: "round_double (r_below + 4) = 8"
proof -
  have "round_double (r_below + 4)
      = of_int (round_even ((r_below + 4) / 2 powr of_int (2 - 52))) * 2 powr of_int (2 - 52)"
    by (rule round_double_eq) (simp_all add: r_below_def)
  also have "(r_below + 4) / 2 powr of_int (2 - 52) = (of_int (2 ^ 53 - 1) + 1/2 :: real)"
    by (simp add: r_below_def powr_minus field_simps)
  also have "round_even (of_int (2 ^ 53 - 1) + 1/2) = 2 ^ 53"
    by (simp only: round_even_half) simp
  finally show ?thesis by (simp add: powr_minus)
qed

lemma cfg_edge_simps:
  "num_bins_r_par cfg_edge = 2" "num_bins_r_trans cfg_edge = 1" "r_par_max cfg_edge = 4"
  "r_par_min cfg_edge = - 4" "r_trans_max cfg_edge = 1" "ang_correlation cfg_edge = False"
  by (simp_all add: cfg_edge_def cfg_ex_def)

lemma r_below_in_window: "- 4 < r_below" "r_below < 4" "0 < r_below"
  by (simp_all add: r_below_def)

lemma bin_par_edge: "bin_par cfg_edge 2 r_below = 2"
  by (simp add: bin_par_def cfg_edge_simps round_double_r_below_shifted round_double_values
        astype_int_def)

lemma exact_bin_edge:
  "\<lfloor>(r_below - r_par_min cfg_edge) / (r_par_max cfg_edge - r_par_min cfg_edge)
     * real (num_bins_r_par cfg_edge)\<rfloor> = 1"
  by (simp add: cfg_edge_simps r_below_def floor_eq_iff)


lemma bin_par_edge_Suc: "bin_par cfg_edge (Suc (Suc 0)) r_below = 2"
  using bin_par_edge by (simp add: numeral_eq_Suc)

lemma bin_trans_edge: "bin_trans cfg_edge n 0 = 0"
  by (simp add: bin_trans_def cfg_edge_simps round_double_values astype_int_def)

lemma xi_selected_edge: "xi_selected cfg_edge [r_below] [1] [0] [0] [0] = [(0, 0)]"
  by (simp add: xi_selected_def nonzero2_def pairs_def window_def xi_r_par_def
        xi_r_trans_def cfg_edge_simps r_below_in_window)

lemma compute_xi_forest_pairs_edge:
  "compute_xi_forest_pairs cfg_edge [2] [r_below] [1] [1] [1] [2] [0] [0] [1] [0]
   = Inr ([0, 0, 1], [0, 0, 1], [0, 0, r_below], [0, 0, 0], [0, 0, 2], [0, 0, 1])"
  by (simp add: compute_xi_forest_pairs_def xi_selected_edge Let_def masked_def cfg_edge_simps
        bin_par_edge_Suc bin_trans_edge xi_r_par_def xi_r_trans_def
        bincount_def bincount_len_def bin_sum_def numeral_eq_Suc)

lemma delta_edge_simps:
  "neighbours delta_edge = Some [obj_ex]" "d_log_lambda delta_edge = [0]"
  "d_r_comov delta_edge = [r_below]" "d_dist_m delta_edge = [1]" "d_z delta_edge = [2]"
  "d_weights delta_edge = [1]" "d_delta delta_edge = [1]"
  by (simp_all add: delta_edge_def)

lemma angle_edge: "angle delta_edge obj_ex = 0"
  by (simp add: angle_def delta_edge_def obj_ex_def)

lemma compute_xi_edge_run: "compute_xi cfg_edge [0] data_edge = Inl ValueError"
  by (simp add: compute_xi_def compute_xi_sums_def compute_xi_delta_def delta_edge_simps
        obj_ex_simps cfg_edge_simps angle_edge compute_xi_forest_pairs_edge
        xi_accumulate_def xi_acc0_def zeros_def add_prefix_def Let_def
        numeral_eq_Suc data_edge_def)

text \<open>
  Claim C1. The claim says that the mask is strict and that every pair surviving it has
  its parallel bin index in \<open>[0, num_bins_r_par)\<close>, a separation just below \<open>r_par_max\<close>
  landing in the last bin and never out of range. The mask is strict (\<open>window_strict\<close>,
  \<open>xi_selected_window\<close>, \<open>dmat_selected_window\<close>), but the index is computed in float
  arithmetic and nothing clamps it. On the grid of two bins over \<open>-4 < r_par < 4\<close>, for the
  pair whose parallel separation is the float just below \<open>4\<close>: the pair survives the mask
  of \<^verbatim>\<open>compute_xi_forest_pairs\<close>; the index of the formula in exact arithmetic is \<open>1\<close>, the
  last bin; the index computed is \<open>2\<close>, because \<open>r_par - r_par_min\<close> rounds up to \<open>8\<close>; the
  kernel returns arrays of three entries; and \<^verbatim>\<open>compute_xi\<close> raises when it adds them to
  its totals of two entries.
\<close>

theorem bin_edge_out_of_range:
  "round_double r_below = r_below
   \<and> xi_r_par cfg_edge [r_below] [0] [0] 0 0 = r_below
   \<and> r_par_min cfg_edge < r_below
   \<and> r_below < r_par_max cfg_edge
   \<and> window cfg_edge (xi_r_par cfg_edge [r_below] [0] [0] 0 0)
        (xi_r_trans cfg_edge [1] [0] [0] 0 0)
   \<and> num_bins_r_par cfg_edge = 2
   \<and> \<lfloor>(r_below - r_par_min cfg_edge) / (r_par_max cfg_edge - r_par_min cfg_edge)
        * real (num_bins_r_par cfg_edge)\<rfloor> = 1
   \<and> bin_par cfg_edge (num_bins_r_par cfg_edge) r_below = 2
   \<and> compute_xi_forest_pairs cfg_edge [2] [r_below] [1] [1] [1] [2] [0] [0] [1] [0]
       = Inr ([0, 0, 1], [0, 0, 1], [0, 0, r_below], [0, 0, 0], [0, 0, 2], [0, 0, 1])
   \<and> compute_xi cfg_edge [0] data_edge = Inl ValueError"
proof -
  have a: "xi_r_par cfg_edge [r_below] [0] [0] 0 0 = r_below"
    by (simp add: xi_r_par_def cfg_edge_simps)
  have b: "r_par_min cfg_edge < r_below" "r_below < r_par_max cfg_edge"
    by (simp_all add: cfg_edge_simps r_below_in_window)
  have c: "num_bins_r_par cfg_edge = 2" by (simp add: cfg_edge_simps)
  have d: "bin_par cfg_edge (num_bins_r_par cfg_edge) r_below = 2"
    by (simp add: c bin_par_edge)
  have w: "window cfg_edge (xi_r_par cfg_edge [r_below] [0] [0] 0 0)
      (xi_r_trans cfg_edge [1] [0] [0] 0 0)"
    by (simp add: window_def xi_r_par_def xi_r_trans_def cfg_edge_simps r_below_in_window)
  from r_below_float a b w c exact_bin_edge d compute_xi_forest_pairs_edge
    compute_xi_edge_run
  show ?thesis by (intro conjI)
qed


section \<open>The neighbours processed by \<^verbatim>\<open>compute_metal_dmat\<close>\<close>

lemma cfg_ex_metal_simps:
  "absorber_igm cfg_ex ''SiII(1526)'' = Some 1" "alpha_abs cfg_ex ''SiII(1526)'' = Some 1"
  "get_r_comov cfg_ex = (\<lambda>z. z)" "get_dist_m cfg_ex = (\<lambda>z. z)" "z_ref cfg_ex = 2"
  by (simp_all add: cfg_ex_def)

lemma delta_two_more_simps: "z_qso delta_two = 3"
  by (simp add: delta_two_def delta_ex_def)

lemma metal_cut_two:
  "metal_cut (cfg_ex\<lparr>reject := r\<rparr>) ''SiII(1526)'' delta_two = Inr ([0, 9], [True, False])"
  by (simp add: metal_cut_def cfg_ex_metal_simps delta_two_simps delta_two_more_simps)

lemma metal_object_step_two:
  "metal_object_step (cfg_ex\<lparr>reject := r\<rparr>) ''SiII(1526)'' delta_two [3/2] [1] [1] [0] [0] [0]
     obj_ex \<lparr>weights_dmat = [0, 0], dmat = [0, 0, 0, 0], r_par_eff = [0, 0],
              r_trans_eff = [0, 0], z_eff = [0, 0], weight_eff = [0, 0]\<rparr>
   = Inr \<lparr>weights_dmat = [1, 0], dmat = [0, 0, 0, 0], r_par_eff = [0, 0],
          r_trans_eff = [0, 0], z_eff = [0, 0], weight_eff = [0, 0]\<rparr>"
  by (simp add: metal_object_step_def angle_two obj_ex_simps Let_def nonzero1_def masked1_def
        window_def cfg_ex_simps cfg_ex_metal_simps bin_par_def bin_trans_def round_double_values
        astype_int_def
        bincount_def bincount_len_def bin_sum_def add_prefix_def dmat_acc0_ex
        z_evol_weight_def numeral_eq_Suc)


lemma dmat_acc0_reject: "dmat_acc0 (cfg\<lparr>reject := r\<rparr>) = dmat_acc0 cfg"
  by (simp add: dmat_acc0_def)


text \<open>
  Claim C3. The claim says that the neighbours \<^verbatim>\<open>compute_metal_dmat\<close> processes are the
  randomly retained ones. The function counts the random mask into \<open>num_pairs_used\<close> and
  then indexes the neighbours with the mask of the redshift cut on the pixels. With
  \<open>reject = 1\<close> no neighbour is retained (\<open>num_pairs_used = 0\<close>), yet for a forest of two
  pixels, the first of which passes the cut, and two neighbours, the first neighbour is
  processed and \<open>weights_dmat\<close> receives its weight. With one neighbour and two pixels the
  mask has the wrong length and the function raises.
\<close>

theorem metal_processes_unselected_neighbours:
  "reject (cfg_ex\<lparr>reject := 1\<rparr>) = 1
   \<and> compute_metal_dmat (cfg_ex\<lparr>reject := 1\<rparr>) (\<lambda>k. 1/2) [0] ''SiII(1526)''
       [0 \<mapsto> [delta_two]]
     = Inr ([0 \<mapsto> [delta_two\<lparr>neighbours := None\<rparr>]],
            \<lparr>arrays = \<lparr>weights_dmat = [1, 0], dmat = [0, 0, 0, 0], r_par_eff = [0, 0],
                        r_trans_eff = [0, 0], z_eff = [0, 0], weight_eff = [0, 0]\<rparr>,
             num_pairs = 2, num_pairs_used = 0, rng_pos = 2\<rparr>)
   \<and> metal_processed (cfg_ex\<lparr>reject := 1\<rparr>) ''SiII(1526)'' delta_two = Inr [obj_ex]
   \<and> compute_metal_dmat cfg_ex (\<lambda>k. 1/2) [0] ''SiII(1526)'' [0 \<mapsto> [delta_ex]]
     = Inl IndexError"
proof -
  have cut_ex: "metal_cut cfg_ex ''SiII(1526)'' delta_ex = Inr ([0, 9], [True, False])"
    by (simp add: metal_cut_def cfg_ex_metal_simps delta_ex_simps delta_ex_def)
  have a: "compute_metal_dmat (cfg_ex\<lparr>reject := 1\<rparr>) (\<lambda>k. 1/2) [0] ''SiII(1526)''
       [0 \<mapsto> [delta_two]]
     = Inr ([0 \<mapsto> [delta_two\<lparr>neighbours := None\<rparr>]],
            \<lparr>arrays = \<lparr>weights_dmat = [1, 0], dmat = [0, 0, 0, 0], r_par_eff = [0, 0],
                        r_trans_eff = [0, 0], z_eff = [0, 0], weight_eff = [0, 0]\<rparr>,
             num_pairs = 2, num_pairs_used = 0, rng_pos = 2\<rparr>)"
    by (simp add: compute_metal_dmat_def compute_metal_dmat_delta_def delta_two_simps
          metal_cut_two select_def rand_def count_true_def Let_def cfg_ex_metal_simps
          metal_object_step_two dmat_acc0_reject dmat_acc0_ex)
  have b: "metal_processed (cfg_ex\<lparr>reject := 1\<rparr>) ''SiII(1526)'' delta_two = Inr [obj_ex]"
    by (simp add: metal_processed_def delta_two_simps metal_cut_two select_def)
  have c: "compute_metal_dmat cfg_ex (\<lambda>k. 1/2) [0] ''SiII(1526)'' [0 \<mapsto> [delta_ex]]
     = Inl IndexError"
    by (simp add: compute_metal_dmat_def compute_metal_dmat_delta_def delta_ex_simps
          cut_ex select_def rand_def count_true_def Let_def cfg_ex_metal_simps)
  from a b c show ?thesis by simp
qed


section \<open>Shapes of the Wick diagram matrices\<close>

lemma fold_err_invariant:
  assumes step: "\<And>x s s'. f x s = Inr s' \<Longrightarrow> P s \<Longrightarrow> P s'"
    and run: "fold_err f xs s = Inr s'" and init: "P s"
  shows "P s'"
  using run init
proof (induction xs arbitrary: s)
  case Nil
  then show ?case by simp
next
  case (Cons x xs)
  from Cons.prems(1) obtain s1 where f: "f x s = Inr s1" and rest: "fold_err f xs s1 = Inr s'"
    by (auto split: sum.splits)
  from step [OF f Cons.prems(2)] have "P s1" .
  from Cons.IH [OF rest this] show ?case .
qed

lemma norm_index_lt: "norm_index n p = Inr a \<Longrightarrow> a < n"
  by (auto simp: norm_index_def Let_def split: if_splits)

lemma mat_add_entry:
  assumes sq: "square n T" and add: "mat_add T p q v = Inr T'"
  shows "\<exists>a b. norm_index n p = Inr a \<and> norm_index n q = Inr b \<and> a < n \<and> b < n
           \<and> square n T'
           \<and> (\<forall>i < n. \<forall>j < n.
                 T' ! i ! j = T ! i ! j + (if i = a \<and> j = b then v else 0))"
proof -
  from sq have len: "length T = n" and rows: "\<And>i. i < n \<Longrightarrow> length (T ! i) = n"
    by (auto simp: square_def)
  from add len obtain a where a: "norm_index n p = Inr a"
    by (auto simp: mat_add_def ebind_eq_Inr)
  then have an: "a < n" by (rule norm_index_lt)
  from add len a rows [OF an] obtain b where b: "norm_index n q = Inr b"
    and T': "T' = T[a := (T ! a)[b := T ! a ! b + v]]"
    by (auto simp: mat_add_def ebind_eq_Inr)
  from b have bn: "b < n" by (rule norm_index_lt)
  have sq': "square n T'"
    using sq an unfolding T' square_def
    by (auto simp: set_conv_nth nth_list_update)
  have ent: "\<forall>i < n. \<forall>j < n. T' ! i ! j = T ! i ! j + (if i = a \<and> j = b then v else 0)"
    using len rows [OF an] an bn unfolding T'
    by (auto simp: nth_list_update)
  from a b an bn sq' ent show ?thesis by blast
qed

lemma mat_add_sym_preserves:
  assumes s: "sym_mat n T" and add: "mat_add_sym T p q v = Inr T'"
  shows "sym_mat n T'"
proof -
  from s have sq: "square n T" and sy: "\<And>i j. i < n \<Longrightarrow> j < n \<Longrightarrow> T ! i ! j = T ! j ! i"
    by (auto simp: sym_mat_def)
  from add obtain T1 where one: "mat_add T p q v = Inr T1" and two: "mat_add T1 q p v = Inr T'"
    by (auto simp: mat_add_sym_def ebind_eq_Inr)
  from mat_add_entry [OF sq one] obtain a b where
    a: "norm_index n p = Inr a" and b: "norm_index n q = Inr b" and sq1: "square n T1"
    and e1: "\<forall>i < n. \<forall>j < n. T1 ! i ! j = T ! i ! j + (if i = a \<and> j = b then v else 0)"
    by blast
  from mat_add_entry [OF sq1 two] a b have sq2: "square n T'"
    and e2: "\<forall>i < n. \<forall>j < n. T' ! i ! j = T1 ! i ! j + (if i = b \<and> j = a then v else 0)"
    by auto
  have "T' ! i ! j = T' ! j ! i" if i: "i < n" and j: "j < n" for i j
  proof -
    have "T' ! i ! j = T ! i ! j + (if i = a \<and> j = b then v else 0)
                         + (if i = b \<and> j = a then v else 0)"
      using e1 e2 i j by simp
    moreover have "T' ! j ! i = T ! j ! i + (if j = a \<and> i = b then v else 0)
                         + (if j = b \<and> i = a then v else 0)"
      using e1 e2 i j by simp
    ultimately show ?thesis using sy [OF i j] by (simp add: conj_commute)
  qed
  with sq2 show ?thesis by (simp add: sym_mat_def)
qed

lemma mat_add_diag_preserves:
  assumes d: "diag_mat n T" and add: "mat_add T p p v = Inr T'"
  shows "diag_mat n T'"
proof -
  from d have sq: "square n T" and z: "\<forall>i < n. \<forall>j < n. i \<noteq> j \<longrightarrow> T ! i ! j = 0"
    by (auto simp: diag_mat_def)
  from mat_add_entry [OF sq add] obtain a b where
    a: "norm_index n p = Inr a" and b: "norm_index n p = Inr b" and sq1: "square n T'"
    and e0: "\<forall>i < n. \<forall>j < n. T' ! i ! j = T ! i ! j + (if i = a \<and> j = b then v else 0)"
    by blast
  from a b have "b = a" by simp
  with e0 have e1:
    "\<forall>i < n. \<forall>j < n. T' ! i ! j = T ! i ! j + (if i = a \<and> j = a then v else 0)"
    by simp
  from e1 z sq1 show ?thesis by (auto simp: diag_mat_def)
qed


lemma wick1234_inner_shape:
  assumes "wick1234_inner c1d_1 zw1 zw2 ba weights we1 idxPix idxQso k1 k2 a = Inr a'"
    and "wick_shape n a"
  shows "wick_shape n a'"
  using assms
  by (auto simp: wick1234_inner_def Let_def ebind_eq_Inr wick_shape_def
        intro: mat_add_sym_preserves split: if_splits)

lemma wick1234_outer_shape:
  assumes run: "wick1234_outer c1d_1 zw1 zw2 ba weights we1 idxPix idxQso k1 a = Inr a'"
    and sh: "wick_shape n a"
  shows "wick_shape n a'"
proof -
  from run obtain wAll' num_pairs_wick' T1' where
    t1: "mat_add (T1 a) (ba ! k1) (ba ! k1)
           ((weights ! k1)\<^sup>2 / we1 ! k1 * zw1 ! (idxPix ! k1)) = Inr T1'"
    and inner: "fold_err (wick1234_inner c1d_1 zw1 zw2 ba weights we1 idxPix idxQso k1)
               [k1 + 1..<length ba]
               (a\<lparr>wAll := wAll', num_pairs_wick := num_pairs_wick', T1 := T1'\<rparr>) = Inr a'"
    by (auto simp: wick1234_outer_def Let_def ebind_eq_Inr split: if_splits)
  from sh t1 have "wick_shape n (a\<lparr>wAll := wAll', num_pairs_wick := num_pairs_wick', T1 := T1'\<rparr>)"
    by (auto simp: wick_shape_def intro: mat_add_diag_preserves)
  with inner show ?thesis
    by (rule fold_err_invariant [where P = "wick_shape n", rotated])
       (rule wick1234_inner_shape)
qed

lemma fill_wickT1234_cases:
  assumes run: "fill_wickT1234 cfg ang r_comov1 r_comov2 z1 z2 weights1 weights2 c1d_1 a = Inr a'"
  shows "a' = a \<or> (\<exists>zw1 zw2 ba weights we1 idxPix idxQso ks.
      fold_err (wick1234_outer c1d_1 zw1 zw2 ba weights we1 idxPix idxQso) ks a = Inr a')"
  using run unfolding fill_wickT1234_def Let_def
  by (simp add: ebind_eq_Inr split: if_splits) blast

lemma fill_wickT1234_shape:
  assumes run: "fill_wickT1234 cfg ang r_comov1 r_comov2 z1 z2 weights1 weights2 c1d_1 a = Inr a'"
    and sh: "wick_shape n a"
  shows "wick_shape n a'"
  using fill_wickT1234_cases [OF run]
proof
  assume "a' = a" with sh show ?thesis by simp
next
  assume "\<exists>zw1 zw2 ba weights we1 idxPix idxQso ks.
      fold_err (wick1234_outer c1d_1 zw1 zw2 ba weights we1 idxPix idxQso) ks a = Inr a'"
  then obtain zw1 zw2 ba weights we1 idxPix idxQso ks where
    "fold_err (wick1234_outer c1d_1 zw1 zw2 ba weights we1 idxPix idxQso) ks a = Inr a'"
    by blast
  from this sh show ?thesis
    by (rule fold_err_invariant [where P = "wick_shape n", rotated])
       (rule wick1234_outer_shape)
qed



lemma wick5_inner_sym:
  "wick5_inner cf13 ba12 we12 pix12 thingid12 ba34 we34 pix34 thingid34 k1 k2 T = Inr T'
     \<Longrightarrow> sym_mat n T \<Longrightarrow> sym_mat n T'"
  unfolding wick5_inner_def by (rule mat_add_sym_preserves)

lemma wick5_loop_sym:
  assumes run: "wick5_loop cf13 ba12 we12 pix12 thingid12 ba34 we34 pix34 thingid34 T = Inr T'"
    and s: "sym_mat n T"
  shows "sym_mat n T'"
  using run [unfolded wick5_loop_def] s
proof (rule fold_err_invariant [where P = "sym_mat n", rotated])
  fix k1 s1 s1'
  assume "fold_err (wick5_inner cf13 ba12 we12 pix12 thingid12 ba34 we34 pix34 thingid34 k1)
            (filter (\<lambda>k2. thingid34 ! k2 = thingid12 ! k1) [0..<length ba34]) s1 = Inr s1'"
    and "sym_mat n s1"
  then show "sym_mat n s1'"
    by (rule fold_err_invariant [where P = "sym_mat n", rotated]) (rule wick5_inner_sym)
qed

lemma wick6_loop_sym:
  assumes run: "wick6_loop cf13 ba12 we12 pix12 thingid12 ba34 we34 pix34 thingid34 T = Inr T'"
    and s: "sym_mat n T"
  shows "sym_mat n T'"
  using run [unfolded wick6_loop_def] s
proof (rule fold_err_invariant [where P = "sym_mat n", rotated])
  fix k1 s1 s1'
  assume "fold_err (\<lambda>k2 T'.
             if thingid34 ! k2 = thingid12 ! k1 then Inr T'
             else wick5_inner cf13 ba12 we12 pix12 thingid12 ba34 we34 pix34 thingid34
                    k1 k2 T')
           [0..<length ba34] s1 = Inr s1'"
    and "sym_mat n s1"
  then show "sym_mat n s1'"
  proof (rule fold_err_invariant [where P = "sym_mat n", rotated])
    fix k2 s2 s2'
    assume "(if thingid34 ! k2 = thingid12 ! k1 then Inr s2
             else wick5_inner cf13 ba12 we12 pix12 thingid12 ba34 we34 pix34 thingid34
                    k1 k2 s2) = Inr s2'"
      and "sym_mat n s2"
    then show "sym_mat n s2'"
      by (auto split: if_splits intro: wick5_inner_sym)
  qed
qed

lemma fill_wickT56_cases:
  assumes run: "fill_wickT56 cfg cfW ang12 ang34 ang13 r_comov1 r_comov2 r3 r4 weights1
                  weights2 w3 w4 thingid2 thingid4 (A, B) = Inr (A', B')"
  shows "(A' = A \<and> B' = B)
       \<or> (\<exists>cf13 ba12 we12 pix12 thingid12 ba34 we34 pix34 thingid34.
            wick5_loop cf13 ba12 we12 pix12 thingid12 ba34 we34 pix34 thingid34 A = Inr A'
            \<and> (B' = B
               \<or> wick6_loop cf13 ba12 we12 pix12 thingid12 ba34 we34 pix34 thingid34 B
                   = Inr B'))"
  using run unfolding fill_wickT56_def Let_def
  by (simp add: ebind_eq_Inr split: if_splits) blast+

lemma fill_wickT56_sym:
  assumes run: "fill_wickT56 cfg cfW ang12 ang34 ang13 r_comov1 r_comov2 r3 r4 weights1
                  weights2 w3 w4 thingid2 thingid4 (A, B) = Inr (A', B')"
    and s: "sym_mat n A" "sym_mat n B"
  shows "sym_mat n A' \<and> sym_mat n B'"
  using fill_wickT56_cases [OF run] s
  by (auto intro: wick5_loop_sym wick6_loop_sym)

lemma wick_d3_step_sym:
  assumes run: "wick_d3_step cfg cfW d1 nbs1 d3 (A, B) = Inr (A', B')"
    and s: "sym_mat n A \<and> sym_mat n B"
  shows "sym_mat n A' \<and> sym_mat n B'"
  using run s unfolding wick_d3_step_def Let_def
  by (auto simp: ebind_eq_Inr split: option.splits if_splits dest: fill_wickT56_sym)


lemma wick_higher_order_shape:
  assumes run: "wick_higher_order cfg d1 nbs1 a = Inr a'" and sh: "wick_shape n a"
  shows "wick_shape n a'"
proof (cases "cfWick cfg")
  case None
  with run sh show ?thesis by (simp add: wick_higher_order_def)
next
  case (Some cfW)
  show ?thesis
  proof (cases "max_diagram cfg \<le> 4")
    case True
    with run sh Some show ?thesis by (simp add: wick_higher_order_def)
  next
    case False
    with run Some obtain A B where
      d3: "fold_err (wick_d3_step cfg cfW d1 nbs1) (dneighs d1) (T5 a, T6 a) = Inr (A, B)"
      and a': "a' = a\<lparr>T5 := A, T6 := B\<rparr>"
      by (auto simp: wick_higher_order_def ebind_eq_Inr)
    let ?P = "\<lambda>s. sym_mat n (fst s) \<and> sym_mat n (snd s)"
    from sh have "?P (T5 a, T6 a)" by (simp add: wick_shape_def)
    with d3 have "?P (A, B)"
    proof (rule fold_err_invariant [where P = ?P, rotated])
      fix x s s'
      assume "wick_d3_step cfg cfW d1 nbs1 x s = Inr s'" and "?P s"
      then show "?P s'"
        using wick_d3_step_sym [of cfg cfW d1 nbs1 x "fst s" "snd s" "fst s'" "snd s'" n]
        by simp
    qed
    with sh a' show ?thesis by (simp add: wick_shape_def)
  qed
qed

lemma wick_delta_step_cases:
  assumes run: "wick_delta_step cfg d1 a = Inr a'"
  shows "a' = a
       \<or> (\<exists>nbs1 ang r1 r2 z1 z2 w1 w2 c a1.
            fill_wickT1234 cfg ang r1 r2 z1 z2 w1 w2 c a = Inr a1
            \<and> wick_higher_order cfg d1 nbs1 a1 = Inr a')"
  using run unfolding wick_delta_step_def Let_def
  by (simp add: ebind_eq_Inr split: option.splits if_splits) blast

lemma wick_delta_step_shape:
  assumes run: "wick_delta_step cfg d1 a = Inr a'" and sh: "wick_shape n a"
  shows "wick_shape n a'"
  using wick_delta_step_cases [OF run] sh
  by (auto dest: fill_wickT1234_shape wick_higher_order_shape)

lemma wick_healpix_step_cases:
  assumes run: "wick_healpix_step cfg rng data healpix st = Inr st'"
  shows "wick st' = wick st
       \<or> (\<exists>kept. fold_err (wick_delta_step cfg) kept (wick st) = Inr (wick st'))"
  using run unfolding wick_healpix_step_def Let_def
  by (auto simp: ebind_eq_Inr split: option.splits if_splits)

lemma square_zeros2: "square n (zeros2 n)"
  by (simp add: square_def zeros2_def)

lemma zeros2_nth: "i < n \<Longrightarrow> j < n \<Longrightarrow> zeros2 n ! i ! j = 0"
  by (simp add: zeros2_def)

lemma wick_shape_acc0: "wick_shape n (wick_acc0 n)"
  by (simp add: wick_shape_def wick_acc0_def sym_mat_def diag_mat_def square_zeros2 zeros2_nth)

lemma wickT_shape:
  assumes run: "wickT cfg rng pix data = Inr st"
  shows "wick_shape (num_bins_r_par cfg * num_bins_r_trans cfg) (wick st)"
proof -
  let ?n = "num_bins_r_par cfg * num_bins_r_trans cfg"
  let ?P = "\<lambda>s. wick_shape ?n (wick s)"
  have "?P \<lparr>wick = wick_acc0 ?n, wick_num_pairs = 0, wick_num_pairs_used = 0,
            wick_rng_pos = 0\<rparr>"
    by (simp add: wick_shape_acc0)
  with run [unfolded wickT_def] show ?thesis
  proof (rule fold_err_invariant [where P = ?P, rotated])
    fix h s s'
    assume step: "wick_healpix_step cfg rng data h s = Inr s'" and p: "?P s"
    from wick_healpix_step_cases [OF step] show "?P s'"
    proof (elim disjE exE)
      assume "wick s' = wick s" with p show ?thesis by simp
    next
      fix kept
      assume "fold_err (wick_delta_step cfg) kept (wick s) = Inr (wick s')"
      from this p show ?thesis
        by (rule fold_err_invariant [where P = "wick_shape ?n", rotated])
           (rule wick_delta_step_shape)
    qed
  qed
qed

lemma cfg_ex_wick_simps:
  "v1d cfg_ex ''a'' = Some (\<lambda>l. 1)" "c1d cfg_ex ''a'' = Some (\<lambda>l. 1)"
  "cfWick cfg_ex = None" "max_diagram cfg_ex = 4" "z_ref cfg_ex = 2" "z_evol_del cfg_ex = 1"
  "z_evol_obj cfg_ex = 1"
  by (simp_all add: cfg_ex_def)

lemma delta_ex_wick_simps: "fname delta_ex = ''a''" "dneighs delta_ex = []"
  by (simp_all add: delta_ex_def)

lemma wick_acc0_ex:
  "wick_acc0 2 = \<lparr>wAll = [0, 0], num_pairs_wick = [0, 0], T1 = [[0, 0], [0, 0]],
       T2 = [[0, 0], [0, 0]], T3 = [[0, 0], [0, 0]], T4 = [[0, 0], [0, 0]],
       T5 = [[0, 0], [0, 0]], T6 = [[0, 0], [0, 0]]\<rparr>"
  by (simp add: wick_acc0_def zeros_def zeros2_def numeral_eq_Suc)

lemma wick_window_ex:
  "nonzero2 (Suc (Suc 0)) (Suc 0)
     (\<lambda>i j. window cfg_ex (sep_par [3/2, 5/2] [0] [0] i j) (sep_trans [3/2, 5/2] [0] [0] i j))
   = [(0, 0), (1, 0)]"
  by (simp add: nonzero2_def pairs_def window_def cfg_ex_simps sep_par_def sep_trans_def)

lemma fill_wickT1234_ex:
  "c 0 (Suc 0) = 1 \<Longrightarrow>
   fill_wickT1234 cfg_ex [0] [3/2, 5/2] [0] [2, 2] [2] [1, 1] [1] c (wick_acc0 2)
     = Inr (wick wick_run_ex)"
  by (simp add: fill_wickT1234_def Let_def z_evol_weight_def cfg_ex_wick_simps wick_window_ex
        cfg_ex_simps wick_acc0_ex wick_run_ex_def)
     (simp add: masked_def bin_par_ex bin_trans_ex round_double_values sep_par_def sep_trans_def astype_int_def
        wick1234_outer_def wick1234_inner_def add_at_def mat_add_def mat_add_sym_def
        norm_index_def)

lemma wickT_ex_run: "wickT cfg_ex (\<lambda>k. 1/2) [0] data_ex = Inr wick_run_ex"
proof -
  have step: "wick_delta_step cfg_ex delta_ex (wick_acc0 2) = Inr (wick wick_run_ex)"
    by (simp add: wick_delta_step_def delta_ex_simps delta_ex_wick_simps cfg_ex_wick_simps
          obj_ex_simps angle_ex Let_def fill_wickT1234_ex wick_higher_order_def)
  show ?thesis
    by (simp add: wickT_def wick_healpix_step_def data_ex_def cfg_ex_simps rand_def
          count_true_def select_def Let_def step wick_run_ex_def)
qed

text \<open>
  Claim C6. The matrices returned by \<^verbatim>\<open>wickT\<close> keep their shape: \<open>T1\<close> is zero off its
  diagonal, and each of \<open>T2\<close>, \<open>T3\<close>, \<open>T4\<close>, \<open>T5\<close> and \<open>T6\<close> is equal to its transpose, for
  all bin indices \<open>i\<close> and \<open>j\<close> of the grid. Every update of \<open>T1\<close> is at an entry \<open>(p1, p1)\<close>
  and every update of the others is the pair of statements at \<open>(p1, p2)\<close> and \<open>(p2, p1)\<close>
  with the same value.
\<close>

theorem wick_matrices_shape:
  assumes run: "wickT cfg rng pix data = Inr st"
    and i: "i < num_bins_r_par cfg * num_bins_r_trans cfg"
    and j: "j < num_bins_r_par cfg * num_bins_r_trans cfg"
  shows "(i \<noteq> j \<longrightarrow> T1 (wick st) ! i ! j = 0)
       \<and> T2 (wick st) ! i ! j = T2 (wick st) ! j ! i
       \<and> T3 (wick st) ! i ! j = T3 (wick st) ! j ! i
       \<and> T4 (wick st) ! i ! j = T4 (wick st) ! j ! i
       \<and> T5 (wick st) ! i ! j = T5 (wick st) ! j ! i
       \<and> T6 (wick st) ! i ! j = T6 (wick st) ! j ! i"
  using wickT_shape [OF run] i j
  by (simp add: wick_shape_def sym_mat_def diag_mat_def)

theorem wick_matrices_shape_witness:
  "wickT cfg_ex (\<lambda>k. 1/2) [0] data_ex = Inr wick_run_ex
   \<and> T1 (wick wick_run_ex) ! 0 ! 1 = 0
   \<and> T2 (wick wick_run_ex) ! 0 ! 1 = T2 (wick wick_run_ex) ! 1 ! 0
   \<and> T2 (wick wick_run_ex) ! 0 ! 1 = 1
   \<and> T3 (wick wick_run_ex) ! 0 ! 1 = T3 (wick wick_run_ex) ! 1 ! 0
   \<and> T4 (wick wick_run_ex) ! 0 ! 1 = T4 (wick wick_run_ex) ! 1 ! 0
   \<and> T5 (wick wick_run_ex) ! 0 ! 1 = T5 (wick wick_run_ex) ! 1 ! 0
   \<and> T6 (wick wick_run_ex) ! 0 ! 1 = T6 (wick wick_run_ex) ! 1 ! 0"
proof -
  have t2: "T2 (wick wick_run_ex) ! 0 ! 1 = 1" by (simp add: wick_run_ex_def)
  have n: "(0::nat) < num_bins_r_par cfg_ex * num_bins_r_trans cfg_ex"
    "(1::nat) < num_bins_r_par cfg_ex * num_bins_r_trans cfg_ex"
    by (simp_all add: cfg_ex_simps)
  have "(0::nat) \<noteq> 1" by simp
  with wick_matrices_shape [OF wickT_ex_run n] have
    "T1 (wick wick_run_ex) ! 0 ! 1 = 0
   \<and> T2 (wick wick_run_ex) ! 0 ! 1 = T2 (wick wick_run_ex) ! 1 ! 0
   \<and> T3 (wick wick_run_ex) ! 0 ! 1 = T3 (wick wick_run_ex) ! 1 ! 0
   \<and> T4 (wick wick_run_ex) ! 0 ! 1 = T4 (wick wick_run_ex) ! 1 ! 0
   \<and> T5 (wick wick_run_ex) ! 0 ! 1 = T5 (wick wick_run_ex) ! 1 ! 0
   \<and> T6 (wick wick_run_ex) ! 0 ! 1 = T6 (wick wick_run_ex) ! 1 ! 0" by blast
  with wickT_ex_run t2 show ?thesis by blast
qed


section \<open>The higher-order diagrams without a model\<close>















section \<open>What the passes change in the entities\<close>

lemma sweep_rel:
  assumes step: "\<And>d s d' s'. f d s = Inr (d', s') \<Longrightarrow> R d d'"
    and run: "sweep f ds s = Inr (ds', s')"
  shows "list_all2 R ds ds'"
  using run
proof (induction ds arbitrary: s ds')
  case Nil
  then show ?case by simp
next
  case (Cons d ds)
  then show ?case
    by (auto split: sum.splits prod.splits dest: step)
qed

lemma sweep_healpixs_rel:
  assumes step: "\<And>d s d' s'. f d s = Inr (d', s') \<Longrightarrow> R d d'"
    and refl: "\<And>d. R d d"
    and trans: "\<And>a b c. R a b \<Longrightarrow> R b c \<Longrightarrow> R a c"
    and run: "sweep_healpixs f healpixs data s = Inr (data', s')"
  shows "rel_option (list_all2 R) (data h) (data' h)"
  using run
proof (induction healpixs arbitrary: data s)
  case Nil
  then show ?case by (simp add: option.rel_refl list.rel_refl refl)
next
  case (Cons healpix healpixs)
  from Cons.prems obtain ds ds' s1 where
    ds: "data healpix = Some ds" and sw: "sweep f ds s = Inr (ds', s1)"
    and rest: "sweep_healpixs f healpixs (data(healpix \<mapsto> ds')) s1 = Inr (data', s')"
    by (auto split: option.splits sum.splits prod.splits)
  from sweep_rel [OF step sw] have r: "list_all2 R ds ds'" .
  from Cons.IH [OF rest] have ih: "rel_option (list_all2 R) ((data(healpix \<mapsto> ds')) h) (data' h)" .
  show ?case
  proof (cases "h = healpix")
    case True
    with ih obtain ds'' where d'': "data' h = Some ds''" and r': "list_all2 R ds' ds''"
      by (auto simp: option_rel_Some1)
    from r r' have "list_all2 R ds ds''"
      by (rule list_all2_trans [rotated]) (rule trans)
    with True ds d'' show ?thesis by simp
  next
    case False
    with ih show ?thesis by simp
  qed
qed

lemma same_but_neighbours_refl: "same_but_neighbours d d"
  by (simp add: same_but_neighbours_def)

lemma same_but_neighbours_trans:
  "same_but_neighbours a b \<Longrightarrow> same_but_neighbours b c \<Longrightarrow> same_but_neighbours a c"
  by (cases a, cases b, cases c) (simp add: same_but_neighbours_def)

lemma same_but_neighbours_update: "same_but_neighbours d (d\<lparr>neighbours := n\<rparr>)"
  by (simp add: same_but_neighbours_def)

lemma kept_or_cleared_refl: "kept_or_cleared d d"
  by (simp add: kept_or_cleared_def)

lemma kept_or_cleared_trans:
  "kept_or_cleared a b \<Longrightarrow> kept_or_cleared b c \<Longrightarrow> kept_or_cleared a c"
  by (auto simp: kept_or_cleared_def)

lemma kept_or_cleared_frame: "kept_or_cleared d d' \<Longrightarrow> same_but_neighbours d d'"
  by (auto simp: kept_or_cleared_def same_but_neighbours_def)

lemma same_but_neighbours_fields:
  assumes "same_but_neighbours d d'"
  shows "thingid d' = thingid d \<and> x_cart d' = x_cart d \<and> y_cart d' = y_cart d
       \<and> z_cart d' = z_cart d \<and> z_qso d' = z_qso d \<and> fname d' = fname d
       \<and> order d' = order d \<and> d_z d' = d_z d \<and> d_r_comov d' = d_r_comov d
       \<and> d_dist_m d' = d_dist_m d \<and> d_log_lambda d' = d_log_lambda d
       \<and> d_weights d' = d_weights d \<and> d_delta d' = d_delta d \<and> dneighs d' = dneighs d"
proof -
  from assms have e: "d' = d\<lparr>neighbours := neighbours d'\<rparr>"
    by (simp add: same_but_neighbours_def)
  show ?thesis by (subst (1 2 3 4 5 6 7 8 9 10 11 12 13 14) e) simp
qed

lemma compute_xi_delta_frame:
  assumes run: "compute_xi_delta cfg d a = Inr (d', a')"
  shows "kept_or_cleared d d'"
proof -
  from run have "d' = d\<lparr>neighbours := None\<rparr>"
    unfolding compute_xi_delta_def Let_def
    by (cases "ang_correlation cfg")
       (simp_all add: ebind_eq_Inr split: option.splits if_splits, blast+)
  then show ?thesis by (simp add: kept_or_cleared_def)
qed

lemma compute_dmat_delta_frame:
  assumes run: "compute_dmat_delta cfg rng d st = Inr (d', st')"
  shows "kept_or_cleared d d'"
  using run unfolding compute_dmat_delta_def Let_def kept_or_cleared_def
  by (simp add: ebind_eq_Inr split: option.splits if_splits) blast

lemma compute_metal_dmat_delta_frame:
  assumes run: "compute_metal_dmat_delta cfg abs_igm rng d st = Inr (d', st')"
  shows "kept_or_cleared d d'"
  using run unfolding compute_metal_dmat_delta_def Let_def kept_or_cleared_def
  by (simp add: ebind_eq_Inr split: option.splits if_splits prod.splits) blast

lemma fill_neighs_delta_frame:
  "fill_neighs_delta cfg objs d = Inr d' \<Longrightarrow> same_but_neighbours d d'"
  by (auto simp: fill_neighs_delta_def Let_def same_but_neighbours_update split: if_splits)

lemma fill_neighs_delta_catalogue:
  assumes run: "fill_neighs_delta cfg objs d = Inr d'"
  shows "\<exists>nbs. neighbours d' = Some nbs
           \<and> (\<forall>q \<in> set nbs. \<exists>h os. objs h = Some os \<and> q \<in> set os)"
proof -
  let ?pick = "\<lambda>other_healpix. case objs other_healpix of
                  None \<Rightarrow> []
                | Some os \<Rightarrow> filter (\<lambda>obj. thingid obj \<noteq> thingid d) os"
  let ?nbs = "concat (map ?pick (query_disc cfg (nside cfg) (x_cart d, y_cart d, z_cart d)
                 (ang_max cfg)))"
  have cat: "\<exists>h os. objs h = Some os \<and> q \<in> set os" if "q \<in> set ?nbs" for q
  proof -
    from that obtain h where "q \<in> set (?pick h)" by auto
    then show ?thesis by (cases "objs h") auto
  qed
  from run obtain P where "neighbours d' = Some (filter P ?nbs)"
    by (auto simp: fill_neighs_delta_def Let_def split: if_splits)
  with cat show ?thesis by auto
qed


lemma fill_neighs_ex_run: "fill_neighs cfg_ex objs_cat [0] data_bare = Inr data_ex"
proof -
  have "fill_neighs_delta cfg_ex objs_cat (delta_ex\<lparr>neighbours := None\<rparr>) = Inr delta_ex"
    by (simp add: fill_neighs_delta_def Let_def objs_cat_def cfg_ex_def delta_ex_def obj_ex_def
          angle_def)
  then show ?thesis
    by (simp add: fill_neighs_def data_bare_def data_ex_def)
qed

lemma compute_xi_heavy_run:
  "compute_xi cfg_ex [0] data_heavy = Inr (data_cleared, xi_result_heavy)"
  by (simp add: compute_xi_def compute_xi_sums_heavy normalise_def data_cleared_def
        xi_result_heavy_def)

lemma compute_xi_frame:
  assumes run: "compute_xi cfg healpixs data = Inr (data', r)"
  shows "rel_option (list_all2 kept_or_cleared) (data h) (data' h)"
proof -
  from run obtain a where "compute_xi_sums cfg healpixs data = Inr (data', a)"
    by (auto simp: compute_xi_def ebind_eq_Inr)
  then have "sweep_healpixs (compute_xi_delta cfg) healpixs data
      (xi_acc0 (num_bins_r_par cfg * num_bins_r_trans cfg)) = Inr (data', a)"
    by (simp add: compute_xi_sums_def)
  with compute_xi_delta_frame kept_or_cleared_refl kept_or_cleared_trans show ?thesis
    by (rule sweep_healpixs_rel)
qed

lemma compute_dmat_frame:
  assumes run: "compute_dmat cfg rng healpixs data = Inr (data', r)"
  shows "rel_option (list_all2 kept_or_cleared) (data h) (data' h)"
  using compute_dmat_delta_frame kept_or_cleared_refl kept_or_cleared_trans
    run [unfolded compute_dmat_def]
  by (rule sweep_healpixs_rel)

lemma compute_metal_dmat_frame:
  assumes run: "compute_metal_dmat cfg rng healpixs abs_igm data = Inr (data', r)"
  shows "rel_option (list_all2 kept_or_cleared) (data h) (data' h)"
  using compute_metal_dmat_delta_frame kept_or_cleared_refl kept_or_cleared_trans
    run [unfolded compute_metal_dmat_def]
  by (rule sweep_healpixs_rel)

lemma fill_neighs_frame:
  assumes run: "fill_neighs cfg objs healpixs data = Inr data'"
  shows "rel_option (list_all2 same_but_neighbours) (data h) (data' h)"
proof -
  let ?f = "\<lambda>delta0 (u :: unit). ebind (fill_neighs_delta cfg objs delta0)
              (\<lambda>delta'. Inr (delta', u))"
  from run obtain u where sw: "sweep_healpixs ?f healpixs data () = Inr (data', u)"
    by (auto simp: fill_neighs_def ebind_eq_Inr)
  have step: "\<And>d s d' s'. ?f d s = Inr (d', s') \<Longrightarrow> same_but_neighbours d d'"
    by (auto simp: ebind_eq_Inr dest: fill_neighs_delta_frame)
  from step same_but_neighbours_refl same_but_neighbours_trans sw show ?thesis
    by (rule sweep_healpixs_rel)
qed

text \<open>\<^verbatim>\<open>xcf1d\<close> changes neither a delta nor a total before it returns or raises.\<close>

lemma xcf1d_delta_same:
  "xcf1d_delta objs healpix d a = Inr (d', a') \<Longrightarrow> d' = d \<and> a' = a"
  by (auto simp: xcf1d_delta_def Let_def split: option.splits if_splits)

lemma sweep_same:
  assumes step: "\<And>d s d' s'. f d s = Inr (d', s') \<Longrightarrow> d' = d \<and> s' = s"
    and run: "sweep f ds s = Inr (ds', s')"
  shows "ds' = ds \<and> s' = s"
  using run
proof (induction ds arbitrary: ds')
  case Nil
  then show ?case by simp
next
  case (Cons d ds)
  from Cons.prems obtain d1 s1 ds1 where
    a: "f d s = Inr (d1, s1)" and b: "sweep f ds s1 = Inr (ds1, s')" and c: "ds' = d1 # ds1"
    by (auto split: sum.splits prod.splits)
  from step [OF a] have d1: "d1 = d" "s1 = s" by simp_all
  from Cons.IH [OF b [unfolded d1]] c d1 show ?case by simp
qed

lemma xcf1d_sweep_same:
  assumes run: "xcf1d_sweep objs healpixs data a = Inr (data', a')"
  shows "data' = data \<and> a' = a"
  using run
proof (induction healpixs)
  case Nil
  then show ?case by simp
next
  case (Cons healpix healpixs)
  from Cons.prems obtain ds ds' a1 where
    ds: "data healpix = Some ds"
    and sw: "sweep (xcf1d_delta objs healpix) ds a = Inr (ds', a1)"
    and rest: "xcf1d_sweep objs healpixs (data(healpix \<mapsto> ds')) a1 = Inr (data', a')"
    by (auto split: option.splits sum.splits prod.splits)
  from sweep_same [OF xcf1d_delta_same sw] have same: "ds' = ds" "a1 = a" by simp_all
  from ds have "data(healpix \<mapsto> ds) = data" by (rule map_upd_triv)
  with rest same have "xcf1d_sweep objs healpixs data a = Inr (data', a')" by simp
  then show ?case by (rule Cons.IH)
qed

lemma xcf1d_same:
  assumes run: "xcf1d cfg healpixs objs data = Inr (data', r)"
  shows "data' = data"
proof -
  from run obtain a0 a where "xcf1d_sweep objs healpixs data a0 = Inr (data', a)"
    by (auto simp: xcf1d_def ebind_eq_Inr)
  then show ?thesis by (simp add: xcf1d_sweep_same)
qed

lemma xcf1d_name_error: "xcf1d cfg_ex [0] objs_same data_ex = Inl NameError"
  by (simp add: xcf1d_def xcf1d_delta_def data_ex_def objs_same_def obj_same_def obj_ex_def
        delta_ex_def Let_def)

lemma xcf1d_ex_run: "xcf1d cfg_ex [0] objs_cat data_ex = Inr (data_ex, result_1d)"
  by (simp add: xcf1d_def xcf1d_delta_def data_ex_def objs_cat_def obj_ex_def delta_ex_def
        Let_def cfg_ex_simps zeros_def normalise_def result_1d_def numeral_eq_Suc)

text \<open>The passes on the two dictionaries.\<close>

lemma fill_neighs_proc_frame:
  assumes run: "fill_neighs_proc cfg healpixs g = Inr g'"
  shows "g_objs g' = g_objs g
       \<and> rel_option (list_all2 same_but_neighbours) (g_data g h) (g_data g' h)"
proof -
  from run obtain data' where "fill_neighs cfg (g_objs g) healpixs (g_data g) = Inr data'"
    and "g' = g\<lparr>g_data := data'\<rparr>"
    by (auto simp: fill_neighs_proc_def ebind_eq_Inr)
  then show ?thesis by (simp add: fill_neighs_frame)
qed

lemma compute_xi_proc_frame:
  assumes run: "compute_xi_proc cfg healpixs g = Inr (g', r)"
  shows "g_objs g' = g_objs g
       \<and> rel_option (list_all2 kept_or_cleared) (g_data g h) (g_data g' h)"
proof -
  from run obtain data' where "compute_xi cfg healpixs (g_data g) = Inr (data', r)"
    and "g' = g\<lparr>g_data := data'\<rparr>"
    by (auto simp: compute_xi_proc_def ebind_eq_Inr)
  then show ?thesis by (simp add: compute_xi_frame)
qed

lemma compute_dmat_proc_frame:
  assumes run: "compute_dmat_proc cfg rng healpixs g = Inr (g', r)"
  shows "g_objs g' = g_objs g
       \<and> rel_option (list_all2 kept_or_cleared) (g_data g h) (g_data g' h)"
proof -
  from run obtain data' where "compute_dmat cfg rng healpixs (g_data g) = Inr (data', r)"
    and "g' = g\<lparr>g_data := data'\<rparr>"
    by (auto simp: compute_dmat_proc_def ebind_eq_Inr)
  then show ?thesis by (simp add: compute_dmat_frame)
qed

lemma compute_metal_dmat_proc_frame:
  assumes run: "compute_metal_dmat_proc cfg rng healpixs abs_igm g = Inr (g', r)"
  shows "g_objs g' = g_objs g
       \<and> rel_option (list_all2 kept_or_cleared) (g_data g h) (g_data g' h)"
proof -
  from run obtain data' where
    "compute_metal_dmat cfg rng healpixs abs_igm (g_data g) = Inr (data', r)"
    and "g' = g\<lparr>g_data := data'\<rparr>"
    by (auto simp: compute_metal_dmat_proc_def ebind_eq_Inr)
  then show ?thesis by (simp add: compute_metal_dmat_frame)
qed

lemma wickT_proc_same: "wickT_proc cfg rng pix g = Inr (g', r) \<Longrightarrow> g' = g"
  by (auto simp: wickT_proc_def ebind_eq_Inr)

lemma xcf1d_proc_same:
  assumes run: "xcf1d_proc cfg healpixs g = Inr (g', r)"
  shows "g' = g"
proof -
  from run obtain data' where x: "xcf1d cfg healpixs (g_objs g) (g_data g) = Inr (data', r)"
    and g': "g' = g\<lparr>g_data := data'\<rparr>"
    by (auto simp: xcf1d_proc_def ebind_eq_Inr)
  from xcf1d_same [OF x] g' show ?thesis by simp
qed

lemma fill_neighs_proc_ex_run: "fill_neighs_proc cfg_ex [0] globals_bare = Inr globals_ex"
  by (simp add: fill_neighs_proc_def globals_bare_def globals_ex_def fill_neighs_ex_run)

lemma compute_xi_proc_heavy_run:
  "compute_xi_proc cfg_ex [0] globals_heavy = Inr (globals_cleared, xi_result_heavy)"
  by (simp add: compute_xi_proc_def globals_heavy_def globals_cleared_def compute_xi_heavy_run)

lemma compute_dmat_proc_ex_run:
  "compute_dmat_proc cfg_ex (\<lambda>k. 1/2) [0] globals_ex
     = Inr (globals_bare,
            \<lparr>arrays = \<lparr>weights_dmat = [1, 1], dmat = [0, 0, 0, 0], r_par_eff = [3/2, 5/2],
                        r_trans_eff = [0, 0], z_eff = [2, 2], weight_eff = [1, 1]\<rparr>,
             num_pairs = 1, num_pairs_used = 1, rng_pos = 1\<rparr>)"
  by (simp add: compute_dmat_proc_def globals_ex_def globals_bare_def data_ex_def data_bare_def
        compute_dmat_ex_run)

lemma wickT_proc_ex_run:
  "wickT_proc cfg_ex (\<lambda>k. 1/2) [0] globals_ex = Inr (globals_ex, wick_run_ex)"
  by (simp add: wickT_proc_def globals_ex_def wickT_ex_run)

lemma xcf1d_proc_ex_run: "xcf1d_proc cfg_ex [0] globals_ex = Inr (globals_ex, result_1d)"
  by (simp add: xcf1d_proc_def globals_ex_def xcf1d_ex_run)

lemma xcf1d_proc_name_error: "xcf1d_proc cfg_ex [0] globals_same = Inl NameError"
  by (simp add: xcf1d_proc_def globals_same_def xcf1d_name_error)

text \<open>
  Claim C9. During a pass the only entity field that is mutated is the \<open>neighbours\<close> field
  of a delta. In a returning call of \<^verbatim>\<open>fill_neighs\<close>, \<^verbatim>\<open>compute_xi\<close>, \<^verbatim>\<open>compute_dmat\<close> or
  \<^verbatim>\<open>compute_metal_dmat\<close> the dictionary of objects is as it was and every delta is as it was
  in every field other than \<open>neighbours\<close>; \<^verbatim>\<open>fill_neighs\<close> assigns objects of the
  catalogue, as they are there, and the three compute passes leave a neighbour list as it
  was or clear it. A returning call of \<^verbatim>\<open>wickT\<close> or of \<^verbatim>\<open>xcf1d\<close> leaves both dictionaries as
  they were. The last two conjuncts spell out the fields that stay: identity, position,
  redshifts, distances, wavelengths, weights and delta values.
\<close>

theorem passes_mutate_only_neighbours:
  "(fill_neighs_proc cfg healpixs g = Inr g1
      \<longrightarrow> g_objs g1 = g_objs g
          \<and> rel_option (list_all2 same_but_neighbours) (g_data g h) (g_data g1 h))
   \<and> (compute_xi_proc cfg healpixs g = Inr (g2, r2)
      \<longrightarrow> g_objs g2 = g_objs g
          \<and> rel_option (list_all2 kept_or_cleared) (g_data g h) (g_data g2 h))
   \<and> (compute_dmat_proc cfg rng healpixs g = Inr (g3, r3)
      \<longrightarrow> g_objs g3 = g_objs g
          \<and> rel_option (list_all2 kept_or_cleared) (g_data g h) (g_data g3 h))
   \<and> (compute_metal_dmat_proc cfg rng healpixs abs_igm g = Inr (g4, r4)
      \<longrightarrow> g_objs g4 = g_objs g
          \<and> rel_option (list_all2 kept_or_cleared) (g_data g h) (g_data g4 h))
   \<and> (wickT_proc cfg rng healpixs g = Inr (g5, r5) \<longrightarrow> g5 = g)
   \<and> (xcf1d_proc cfg healpixs g = Inr (g6, r6) \<longrightarrow> g6 = g)
   \<and> (fill_neighs_delta cfg objs d = Inr d'
      \<longrightarrow> (\<exists>nbs. neighbours d' = Some nbs
              \<and> (\<forall>q \<in> set nbs. \<exists>k os. objs k = Some os \<and> q \<in> set os)))
   \<and> (kept_or_cleared d d' \<longrightarrow> same_but_neighbours d d')
   \<and> (same_but_neighbours d d'
      \<longrightarrow> thingid d' = thingid d \<and> x_cart d' = x_cart d \<and> y_cart d' = y_cart d
          \<and> z_cart d' = z_cart d \<and> z_qso d' = z_qso d \<and> fname d' = fname d
          \<and> order d' = order d \<and> d_z d' = d_z d \<and> d_r_comov d' = d_r_comov d
          \<and> d_dist_m d' = d_dist_m d \<and> d_log_lambda d' = d_log_lambda d
          \<and> d_weights d' = d_weights d \<and> d_delta d' = d_delta d \<and> dneighs d' = dneighs d)"
  using fill_neighs_proc_frame [of cfg healpixs g g1 h]
    compute_xi_proc_frame [of cfg healpixs g g2 r2 h]
    compute_dmat_proc_frame [of cfg rng healpixs g g3 r3 h]
    compute_metal_dmat_proc_frame [of cfg rng healpixs abs_igm g g4 r4 h]
    wickT_proc_same [of cfg rng healpixs g g5 r5]
    xcf1d_proc_same [of cfg healpixs g g6 r6]
    fill_neighs_delta_catalogue [of cfg objs d d']
    kept_or_cleared_frame [of d d']
    same_but_neighbours_fields [of d d']
  by blast

theorem passes_mutate_only_neighbours_witness:
  "fill_neighs_proc cfg_ex [0] globals_bare = Inr globals_ex
   \<and> g_objs globals_ex = g_objs globals_bare
   \<and> rel_option (list_all2 same_but_neighbours) (g_data globals_bare 0) (g_data globals_ex 0)
   \<and> neighbours delta_ex = Some [obj_ex]
   \<and> objs_cat 0 = Some [obj_ex]
   \<and> compute_xi_proc cfg_ex [0] globals_heavy = Inr (globals_cleared, xi_result_heavy)
   \<and> g_objs globals_cleared = g_objs globals_heavy
   \<and> rel_option (list_all2 kept_or_cleared) (g_data globals_heavy 0) (g_data globals_cleared 0)
   \<and> compute_dmat_proc cfg_ex (\<lambda>k. 1/2) [0] globals_ex
       = Inr (globals_bare,
              \<lparr>arrays = \<lparr>weights_dmat = [1, 1], dmat = [0, 0, 0, 0], r_par_eff = [3/2, 5/2],
                          r_trans_eff = [0, 0], z_eff = [2, 2], weight_eff = [1, 1]\<rparr>,
               num_pairs = 1, num_pairs_used = 1, rng_pos = 1\<rparr>)
   \<and> g_objs globals_bare = g_objs globals_ex
   \<and> rel_option (list_all2 kept_or_cleared) (g_data globals_ex 0) (g_data globals_bare 0)
   \<and> wickT_proc cfg_ex (\<lambda>k. 1/2) [0] globals_ex = Inr (globals_ex, wick_run_ex)
   \<and> xcf1d_proc cfg_ex [0] globals_ex = Inr (globals_ex, result_1d)
   \<and> xcf1d_proc cfg_ex [0] globals_same = Inl NameError"
proof -
  note frame = passes_mutate_only_neighbours [where h = 0]
  note a = frame [THEN conjunct1, THEN mp, OF fill_neighs_proc_ex_run]
  note b = frame [THEN conjunct2, THEN conjunct1, THEN mp, OF compute_xi_proc_heavy_run]
  note c = frame [THEN conjunct2, THEN conjunct2, THEN conjunct1, THEN mp,
      OF compute_dmat_proc_ex_run]
  have d: "neighbours delta_ex = Some [obj_ex]" "objs_cat 0 = Some [obj_ex]"
    by (simp_all add: delta_ex_simps objs_cat_def)
  from a b c d fill_neighs_proc_ex_run compute_xi_proc_heavy_run compute_dmat_proc_ex_run
    wickT_proc_ex_run xcf1d_proc_ex_run xcf1d_proc_name_error
  show ?thesis by blast
qed

end
